theory Spec2Isabelle
  imports Complex_Main "HOL-Library.AList" "HOL-Library.Log_Nat"
begin

section \<open>Numbers, clock readings and dictionaries\<close>

text \<open>
  The risk manager (\<^verbatim>\<open>src/risk_manager.py\<close>) and the stock poller
  (\<^verbatim>\<open>src/poller.py\<close>) are embedded as state-passing functions.
  Prices and money amounts are Python floats in the source; here they are rationals.
  Python's \<^verbatim>\<open>int(x)\<close> on a float truncates towards zero.
\<close>

definition py_int :: "rat \<Rightarrow> int" where
  "py_int x = (if 0 \<le> x then \<lfloor>x\<rfloor> else \<lceil>x\<rceil>)"

text \<open>
  Position sizing is where the rounding of the doubles decides the result, so its arithmetic
  is modelled with rounding. \<open>to_double x\<close> is the double nearest to \<open>x\<close>: 53 significant
  bits, ties to the even significand, and below \<^verbatim>\<open>2^-1022\<close> the fixed spacing
  \<^verbatim>\<open>2^-1074\<close> of the subnormal range. Every arithmetic operation on doubles returns
  \<open>to_double\<close> of the exact result. Magnitudes from \<^verbatim>\<open>2^1024\<close> on, where a double
  becomes infinite, are outside the model. \<open>binade x\<close> is the exponent \<open>e\<close> with
  \<^verbatim>\<open>2^e <= |x| < 2^(e+1)\<close>, and \<open>pow2 e\<close> is that power of two.
\<close>

definition pow2 :: "int \<Rightarrow> rat" where
  "pow2 e = (if 0 \<le> e then 2 ^ nat e else 1 / 2 ^ nat (- e))"

definition round_half_even :: "rat \<Rightarrow> int" where
  "round_half_even x =
     (let f = \<lfloor>x\<rfloor>; r = x - of_int f
      in if r < 1 / 2 then f
         else if 1 / 2 < r then f + 1
         else if even f then f else f + 1)"

definition binade :: "rat \<Rightarrow> int" where
  "binade x =
     (let (a, b) = quotient_of \<bar>x\<bar>; e0 = bitlen a - bitlen b
      in if pow2 e0 \<le> \<bar>x\<bar> then e0 else e0 - 1)"

definition to_double :: "rat \<Rightarrow> rat" where
  "to_double x =
     (if x = 0 then 0
      else (let spacing = pow2 (max (binade x) (- 1022) - 52)
            in of_int (round_half_even (x / spacing)) * spacing))"

text \<open>
  A naive \<^verbatim>\<open>datetime\<close>: the calendar date as a day number, and the time of day.
  \<^verbatim>\<open>a - b\<close> followed by \<^verbatim>\<open>total_seconds()\<close> is the difference of the
  microsecond counts; comparison of two datetimes compares the counts.
\<close>

record datetime =
  day :: int
  hour :: nat
  minute :: nat
  second :: nat
  microsecond :: nat

definition date :: "datetime \<Rightarrow> int" where
  "date dt = day dt"

definition micros :: "datetime \<Rightarrow> int" where
  "micros dt =
     (((day dt * 24 + int (hour dt)) * 60 + int (minute dt)) * 60 + int (second dt)) * 1000000
       + int (microsecond dt)"

definition total_seconds :: "datetime \<Rightarrow> datetime \<Rightarrow> rat" where
  "total_seconds a b = of_int (micros a - micros b) / 1000000"

text \<open>The settings of \<^verbatim>\<open>src/config.py\<close> that the two modules read.\<close>

record config =
  INITIAL_CAPITAL :: rat
  MAX_CAPITAL_PER_TRADE :: rat
  MAX_ACTIVE_TRADES :: int
  MAX_DAILY_LOSSES :: int
  MAX_DAILY_DRAWDOWN :: rat
  MIN_RISK_REWARD_RATIO :: rat
  MARKET_OPEN_HOUR :: nat
  MARKET_OPEN_MINUTE :: nat
  FORCE_EXIT_HOUR :: nat
  FORCE_EXIT_MINUTE :: nat
  INACTIVE_POLL_INTERVAL :: int
  ACTIVE_POLL_INTERVAL :: int

definition default_config :: config where
  "default_config =
     \<lparr> INITIAL_CAPITAL = 100000, MAX_CAPITAL_PER_TRADE = 1 / 100, MAX_ACTIVE_TRADES = 2,
       MAX_DAILY_LOSSES = 3, MAX_DAILY_DRAWDOWN = 5 / 100, MIN_RISK_REWARD_RATIO = 3 / 2,
       MARKET_OPEN_HOUR = 9, MARKET_OPEN_MINUTE = 15, FORCE_EXIT_HOUR = 15,
       FORCE_EXIT_MINUTE = 10, INACTIVE_POLL_INTERVAL = 600, ACTIVE_POLL_INTERVAL = 60 \<rparr>"

section \<open>The risk manager\<close>

text \<open>The dictionary \<^verbatim>\<open>trade_record\<close> built by \<^verbatim>\<open>record_trade_outcome\<close>.\<close>

record trade_record =
  symbol_rec :: string
  timestamp_rec :: datetime
  entry_price_rec :: rat
  exit_price_rec :: rat
  quantity_rec :: int
  transaction_type_rec :: string
  pnl :: rat
  pnl_pct :: rat
  is_loss :: bool

datatype rejection =
    Invalid_stop_loss_price
  | RR_ratio_below_minimum rat rat
  | Cannot_calculate_valid_position_size
  | Capital_at_risk_exceeds_limit rat rat
  | Error_in_risk_validation

record RiskMetrics =
  position_size :: rat
  risk_amount :: rat
  reward_amount :: rat
  risk_reward_ratio :: rat
  capital_at_risk_pct :: rat
  is_within_limits :: bool
  rejection_reason :: "rejection option"

record AccountRisk =
  total_capital :: rat
  available_capital :: rat
  used_capital :: rat
  daily_pnl_snapshot :: rat
  daily_loss_count_snapshot :: int
  max_drawdown_today_snapshot :: rat
  active_trades_snapshot :: int
  is_trading_allowed :: bool
  risk_status :: string

text \<open>
  The attributes of a \<^verbatim>\<open>RiskManager\<close> object: the six risk parameters copied from the
  configuration by \<^verbatim>\<open>__init__\<close>, then the daily state.
\<close>

record RiskManager =
  initial_capital :: rat
  max_capital_per_trade :: rat
  max_active_trades :: int
  max_daily_losses :: int
  max_daily_drawdown :: rat
  min_risk_reward :: rat
  daily_trades :: "trade_record list"
  daily_pnl :: rat
  daily_loss_count :: int
  max_drawdown_today :: rat
  start_of_day_capital :: rat
  last_reset_date :: int

text \<open>\<^verbatim>\<open>RiskManager.__init__\<close>, run at process start on the date \<open>today\<close>.\<close>

definition RiskManager_init :: "config \<Rightarrow> int \<Rightarrow> RiskManager" where
  "RiskManager_init cfg today =
     \<lparr> initial_capital = INITIAL_CAPITAL cfg,
       max_capital_per_trade = MAX_CAPITAL_PER_TRADE cfg,
       max_active_trades = MAX_ACTIVE_TRADES cfg,
       max_daily_losses = MAX_DAILY_LOSSES cfg,
       max_daily_drawdown = MAX_DAILY_DRAWDOWN cfg,
       min_risk_reward = MIN_RISK_REWARD_RATIO cfg,
       daily_trades = [],
       daily_pnl = 0,
       daily_loss_count = 0,
       max_drawdown_today = 0,
       start_of_day_capital = INITIAL_CAPITAL cfg,
       last_reset_date = today \<rparr>"

definition get_current_capital :: "RiskManager \<Rightarrow> rat" where
  "get_current_capital rm = initial_capital rm + daily_pnl rm"

definition reset_daily_metrics :: "int \<Rightarrow> RiskManager \<Rightarrow> RiskManager" where
  "reset_daily_metrics today rm =
     (if today \<noteq> last_reset_date rm then
        (let rm1 = rm\<lparr> daily_trades := [], daily_pnl := 0, daily_loss_count := 0,
                        max_drawdown_today := 0 \<rparr>;
             rm2 = rm1\<lparr> start_of_day_capital := get_current_capital rm1 \<rparr>
         in rm2\<lparr> last_reset_date := today \<rparr>)
      else rm)"

text \<open>
  \<^verbatim>\<open>calculate_position_size\<close>, in double arithmetic: the sum that is the current capital,
  the products, the difference and the quotients are each rounded, the literal \<^verbatim>\<open>0.9\<close> is
  the double nearest to nine tenths, and an integer quantity is converted to a double before
  it is multiplied. The optional argument \<^verbatim>\<open>risk_amount\<close> is \<open>None\<close> when the caller
  leaves it out. The one division that can raise
  (\<^verbatim>\<open>max_capital_limit / entry_price\<close> with a zero entry price) lands in the
  \<^verbatim>\<open>except\<close> clause, which returns \<^verbatim>\<open>(0, 0.0)\<close>.
\<close>

definition calculate_position_size ::
  "RiskManager \<Rightarrow> rat \<Rightarrow> rat \<Rightarrow> rat option \<Rightarrow> int \<times> rat" where
  "calculate_position_size rm entry stop risk_amount_arg =
     (let current_capital = to_double (get_current_capital rm);
          risk_amt = (case risk_amount_arg of
                        None \<Rightarrow> to_double (current_capital * max_capital_per_trade rm)
                      | Some r \<Rightarrow> r);
          risk_per_share = \<bar>to_double (entry - stop)\<bar>
      in if risk_per_share \<le> 0 then (0, 0)
         else
           (let max_quantity = py_int (to_double (risk_amt / risk_per_share));
                max_value = to_double (to_double (of_int max_quantity) * entry);
                max_capital_limit = to_double (current_capital * to_double (9 / 10))
            in if max_value > max_capital_limit then
                 (if entry = 0 then (0, 0)
                  else (let capped = py_int (to_double (max_capital_limit / entry))
                        in (capped, to_double (to_double (of_int capped) * risk_per_share))))
               else (max_quantity,
                     to_double (to_double (of_int max_quantity) * risk_per_share))))"

text \<open>
  \<^verbatim>\<open>validate_trade_risk\<close> first runs the daily reset, so it returns the new manager
  state with the metrics. \<^verbatim>\<open>risk_amount / current_capital\<close> raises on a zero capital;
  the \<^verbatim>\<open>except\<close> clause then answers with the all-zero rejection.
\<close>

definition validate_trade_risk ::
  "int \<Rightarrow> RiskManager \<Rightarrow> string \<Rightarrow> rat \<Rightarrow> rat \<Rightarrow> rat \<Rightarrow> rat \<Rightarrow> RiskMetrics \<times> RiskManager" where
  "validate_trade_risk today rm0 symb entry stop target confidence =
     (let rm = reset_daily_metrics today rm0;
          risk_per_share = \<bar>entry - stop\<bar>;
          reward_per_share = \<bar>target - entry\<bar>
      in if risk_per_share \<le> 0 then
           (\<lparr> position_size = 0, risk_amount = 0, reward_amount = 0, risk_reward_ratio = 0,
              capital_at_risk_pct = 0, is_within_limits = False,
              rejection_reason = Some Invalid_stop_loss_price \<rparr>, rm)
         else
           (let rr = reward_per_share / risk_per_share
            in if rr < min_risk_reward rm then
                 (\<lparr> position_size = 0, risk_amount = 0, reward_amount = 0,
                    risk_reward_ratio = rr, capital_at_risk_pct = 0, is_within_limits = False,
                    rejection_reason = Some (RR_ratio_below_minimum rr (min_risk_reward rm)) \<rparr>,
                  rm)
               else
                 (let (qty, risk_amt) = calculate_position_size rm entry stop None
                  in if qty \<le> 0 then
                       (\<lparr> position_size = 0, risk_amount = 0, reward_amount = 0,
                          risk_reward_ratio = rr, capital_at_risk_pct = 0,
                          is_within_limits = False,
                          rejection_reason = Some Cannot_calculate_valid_position_size \<rparr>, rm)
                     else
                       (let reward_amt = of_int qty * reward_per_share;
                            current_capital = get_current_capital rm
                        in if current_capital = 0 then
                             (\<lparr> position_size = 0, risk_amount = 0, reward_amount = 0,
                                risk_reward_ratio = 0, capital_at_risk_pct = 0,
                                is_within_limits = False,
                                rejection_reason = Some Error_in_risk_validation \<rparr>, rm)
                           else
                             (let pct = risk_amt / current_capital
                              in if pct > max_capital_per_trade rm then
                                   (\<lparr> position_size = of_int qty, risk_amount = risk_amt,
                                      reward_amount = reward_amt, risk_reward_ratio = rr,
                                      capital_at_risk_pct = pct, is_within_limits = False,
                                      rejection_reason =
                                        Some (Capital_at_risk_exceeds_limit pct
                                                (max_capital_per_trade rm)) \<rparr>, rm)
                                 else
                                   (\<lparr> position_size = of_int qty, risk_amount = risk_amt,
                                      reward_amount = reward_amt, risk_reward_ratio = rr,
                                      capital_at_risk_pct = pct, is_within_limits = True,
                                      rejection_reason = None \<rparr>, rm))))))"

definition is_near_market_close :: "datetime \<Rightarrow> bool" where
  "is_near_market_close now =
     (if hour now \<ge> 15 then True
      else (let close_time = now\<lparr> hour := 15, minute := 0, second := 0, microsecond := 0 \<rparr>
            in total_seconds close_time now < 600))"

text \<open>
  \<^verbatim>\<open>check_trading_allowed\<close>. The argument \<^verbatim>\<open>active_positions\<close> is a dictionary
  from symbols to broker positions; the only attribute read is \<^verbatim>\<open>unrealized_pnl\<close>,
  so a position is represented by that number. The drawdown division raises when
  \<^verbatim>\<open>start_of_day_capital\<close> is zero; the \<^verbatim>\<open>except\<close> clause then returns the
  \<^verbatim>\<open>ERROR\<close> snapshot, after the reset and the assignment to \<^verbatim>\<open>daily_pnl\<close>
  have already taken place.
\<close>

definition check_trading_allowed ::
  "datetime \<Rightarrow> RiskManager \<Rightarrow> (string \<times> rat) list \<Rightarrow> AccountRisk \<times> RiskManager" where
  "check_trading_allowed now rm0 active_positions =
     (let rm1 = reset_daily_metrics (date now) rm0;
          current_capital = get_current_capital rm1;
          active_trades = int (length active_positions);
          total_unrealized_pnl = sum_list (map snd active_positions);
          rm2 = rm1\<lparr> daily_pnl := total_unrealized_pnl \<rparr>
      in if current_capital < start_of_day_capital rm2 \<and> start_of_day_capital rm2 = 0 then
           (\<lparr> total_capital = initial_capital rm2, available_capital = 0, used_capital = 0,
              daily_pnl_snapshot = 0, daily_loss_count_snapshot = 999,
              max_drawdown_today_snapshot = 1, active_trades_snapshot = 0,
              is_trading_allowed = False, risk_status = ''ERROR'' \<rparr>, rm2)
         else
           (let rm3 =
                  (if current_capital < start_of_day_capital rm2 then
                     rm2\<lparr> max_drawdown_today :=
                            max (max_drawdown_today rm2)
                              ((start_of_day_capital rm2 - current_capital)
                                 / start_of_day_capital rm2) \<rparr>
                   else rm2);
                status =
                  (if active_trades \<ge> max_active_trades rm3 then ''MAX_TRADES_REACHED''
                   else if daily_loss_count rm3 \<ge> max_daily_losses rm3 then ''MAX_DAILY_LOSSES''
                   else if max_drawdown_today rm3 \<ge> max_daily_drawdown rm3
                     then ''MAX_DRAWDOWN_EXCEEDED''
                   else if is_near_market_close now then ''NEAR_MARKET_CLOSE''
                   else ''NORMAL'');
                allowed =
                  (if active_trades \<ge> max_active_trades rm3 then False
                   else if daily_loss_count rm3 \<ge> max_daily_losses rm3 then False
                   else if max_drawdown_today rm3 \<ge> max_daily_drawdown rm3 then False
                   else if is_near_market_close now then False
                   else True)
            in (\<lparr> total_capital = initial_capital rm3, available_capital = current_capital,
                  used_capital = initial_capital rm3 - current_capital,
                  daily_pnl_snapshot = daily_pnl rm3,
                  daily_loss_count_snapshot = daily_loss_count rm3,
                  max_drawdown_today_snapshot = max_drawdown_today rm3,
                  active_trades_snapshot = active_trades,
                  is_trading_allowed = allowed, risk_status = status \<rparr>, rm3)))"

text \<open>
  \<^verbatim>\<open>record_trade_outcome\<close>. The percentage return divides by
  \<^verbatim>\<open>entry_price * quantity\<close>; when that product is zero the division raises before
  anything is stored, and the \<^verbatim>\<open>except\<close> clause returns the empty dictionary
  (\<open>None\<close> here) with the state untouched.
\<close>

definition record_trade_outcome ::
  "datetime \<Rightarrow> RiskManager \<Rightarrow> string \<Rightarrow> rat \<Rightarrow> rat \<Rightarrow> int \<Rightarrow> string
     \<Rightarrow> trade_record option \<times> RiskManager" where
  "record_trade_outcome now rm symb entry exit_price qty side =
     (let p = (if side = ''BUY'' then (exit_price - entry) * of_int qty
               else (entry - exit_price) * of_int qty)
      in if entry * of_int qty = 0 then (None, rm)
         else
           (let pct = (p / (entry * of_int qty)) * 100;
                trade_rec = \<lparr> symbol_rec = symb, timestamp_rec = now, entry_price_rec = entry,
                        exit_price_rec = exit_price, quantity_rec = qty,
                        transaction_type_rec = side, pnl = p, pnl_pct = pct,
                        is_loss = (p < 0) \<rparr>;
                rm1 = rm\<lparr> daily_trades := daily_trades rm @ [trade_rec] \<rparr>;
                rm2 = rm1\<lparr> daily_pnl := daily_pnl rm1 + p \<rparr>;
                rm3 = (if p < 0 then rm2\<lparr> daily_loss_count := daily_loss_count rm2 + 1 \<rparr>
                       else rm2)
            in (Some trade_rec, rm3)))"

text \<open>
  \<^verbatim>\<open>get_current_risk_status\<close> and \<^verbatim>\<open>get_risk_summary\<close>. The summary runs the daily
  reset first. Its last division, \<^verbatim>\<open>daily_pnl / initial_capital\<close>, raises on a zero
  initial capital, and the \<^verbatim>\<open>except\<close> clause returns the empty dictionary (\<open>None\<close>).
\<close>

definition get_current_risk_status :: "datetime \<Rightarrow> RiskManager \<Rightarrow> string" where
  "get_current_risk_status now rm =
     (if daily_loss_count rm \<ge> max_daily_losses rm
        then ''STOPPED - Max daily losses reached''
      else if max_drawdown_today rm \<ge> max_daily_drawdown rm
        then ''STOPPED - Max drawdown exceeded''
      else if is_near_market_close now
        then ''STOPPING - Near market close''
      else if of_int (daily_loss_count rm) \<ge> of_int (max_daily_losses rm) * (7 / 10 :: rat)
        then ''CAUTION - Approaching loss limit''
      else if max_drawdown_today rm \<ge> max_daily_drawdown rm * (7 / 10)
        then ''CAUTION - Approaching drawdown limit''
      else ''NORMAL - Trading allowed'')"

record RiskSummary =
  daily_pnl_summary :: rat
  daily_loss_count_summary :: int
  max_drawdown_today_summary :: rat
  total_trades :: nat
  winning_trades :: nat
  losing_trades :: nat
  win_rate_pct :: rat
  avg_pnl :: rat
  avg_win :: rat
  avg_loss :: rat
  current_capital_summary :: rat
  capital_change_pct :: rat
  risk_status_summary :: string

definition get_risk_summary ::
  "datetime \<Rightarrow> RiskManager \<Rightarrow> RiskSummary option \<times> RiskManager" where
  "get_risk_summary now rm0 =
     (let rm = reset_daily_metrics (date now) rm0;
          total = length (daily_trades rm);
          winning = length (filter (\<lambda>t. pnl t > 0) (daily_trades rm));
          losing = length (filter (\<lambda>t. pnl t < 0) (daily_trades rm));
          win_rate = (if total > 0 then of_nat winning / of_nat total * 100 else 0);
          a_pnl = (if daily_trades rm \<noteq> []
                   then sum_list (map pnl (daily_trades rm)) / of_nat total else 0);
          a_win = (if daily_trades rm \<noteq> []
                   then sum_list (map pnl (filter (\<lambda>t. pnl t > 0) (daily_trades rm)))
                          / of_nat (max winning 1)
                   else 0);
          a_loss = (if daily_trades rm \<noteq> []
                    then sum_list (map pnl (filter (\<lambda>t. pnl t < 0) (daily_trades rm)))
                           / of_nat (max losing 1)
                    else 0)
      in if initial_capital rm = 0 then (None, rm)
         else
           (Some \<lparr> daily_pnl_summary = daily_pnl rm,
                   daily_loss_count_summary = daily_loss_count rm,
                   max_drawdown_today_summary = max_drawdown_today rm,
                   total_trades = total, winning_trades = winning, losing_trades = losing,
                   win_rate_pct = win_rate, avg_pnl = a_pnl, avg_win = a_win,
                   avg_loss = a_loss, current_capital_summary = get_current_capital rm,
                   capital_change_pct = (daily_pnl rm / initial_capital rm) * 100,
                   risk_status_summary = get_current_risk_status now rm \<rparr>, rm))"

text \<open>
  \<^verbatim>\<open>should_force_exit_all\<close> reads the clock and the daily fields as they are; it does not
  run the daily reset.
\<close>

definition should_force_exit_all :: "datetime \<Rightarrow> RiskManager \<Rightarrow> bool" where
  "should_force_exit_all now rm =
     (if hour now \<ge> 15 \<and> minute now \<ge> 10 then True
      else if max_drawdown_today rm \<ge> max_daily_drawdown rm then True
      else if daily_loss_count rm \<ge> max_daily_losses rm then True
      else False)"

text \<open>
  The states a risk manager can be in: the one built at process start, and those reached from
  it by the public operations.
\<close>

inductive manager_reachable :: "config \<Rightarrow> RiskManager \<Rightarrow> bool" for cfg :: config where
  reach_init: "manager_reachable cfg (RiskManager_init cfg today)"
| reach_reset: "manager_reachable cfg rm \<Longrightarrow> manager_reachable cfg (reset_daily_metrics today rm)"
| reach_validate:
    "manager_reachable cfg rm \<Longrightarrow>
     manager_reachable cfg (snd (validate_trade_risk today rm symb entry stop target confidence))"
| reach_check:
    "manager_reachable cfg rm \<Longrightarrow>
     manager_reachable cfg (snd (check_trading_allowed now rm active_positions))"
| reach_record:
    "manager_reachable cfg rm \<Longrightarrow>
     manager_reachable cfg (snd (record_trade_outcome now rm symb entry exit_price qty side))"

section \<open>The stock poller\<close>

record MonitoredStock =
  stock_symbol :: string
  added_time :: datetime
  last_analysis_time :: datetime
  sentiment_score :: rat
  technical_score :: rat
  is_active_trade :: bool

record ActiveTrade =
  trade_id :: string
  symbol :: string
  entry_time :: datetime
  entry_price :: rat
  stop_loss :: rat
  target_price :: rat
  quantity :: int
  transaction_type :: string
  current_price :: rat
  unrealized_pnl :: rat
  last_check_time :: "datetime option"

text \<open>
  The dictionary returned by the decision engine: the flag \<^verbatim>\<open>should_trade\<close> and, under
  the key \<^verbatim>\<open>ai_decision\<close>, the fields that \<^verbatim>\<open>execute_trade_decision\<close> reads.
\<close>

record ai_decision =
  decision :: string
  position_size_ai :: rat
  entry_price_ai :: rat
  stop_loss_ai :: rat
  target_price_ai :: rat

record decision_result =
  should_trade :: bool
  ai_decision_of :: ai_decision

text \<open>
  The collaborators (broker, decision engine, screener, sentiment analysis, trade logger)
  are outside the two modules. Their answers during one pass of the loop are the fields of an
  environment; the broker and the logger catch their own exceptions and answer
  \<^verbatim>\<open>None\<close> or \<^verbatim>\<open>False\<close>, which is what the option and the booleans stand for.
  The screener and the sentiment analysis may raise (\<open>None\<close>). All readings of
  \<^verbatim>\<open>datetime.now()\<close> within one pass are taken to be the same instant \<open>clock\<close>.
\<close>

record env =
  clock :: datetime
  get_current_price :: "string \<Rightarrow> rat option"
  exit_position :: "string \<Rightarrow> bool"
  place_bracket_order :: "string \<Rightarrow> int \<Rightarrow> bool"
  positions :: "(string \<times> rat) list"
  make_trading_decision :: "string \<Rightarrow> decision_result"
  log_trade_execution :: "string \<Rightarrow> string"
  screen_top_stocks :: "(string \<times> rat) list option"
  analyze_sentiment :: "(string \<Rightarrow> rat) option"

text \<open>
  The calls that leave the poller towards the broker and the trade logger are recorded in
  the order they are made, so that statements about which calls happen can be made.
\<close>

datatype call =
    Exit_position string
  | Force_exit_all_positions
  | Place_bracket_order string int
  | Log_trade_exit string string

text \<open>The symbols for which \<^verbatim>\<open>broker.exit_position\<close> was called, in call order.\<close>

fun exit_symbols :: "call list \<Rightarrow> string list" where
  "exit_symbols [] = []"
| "exit_symbols (Exit_position symb # cs) = symb # exit_symbols cs"
| "exit_symbols (c # cs) = exit_symbols cs"

text \<open>
  The attributes of a \<^verbatim>\<open>StockPoller\<close>. Dictionaries are association lists in insertion
  order; \<open>calls\<close> is the record of outgoing calls.
\<close>

record StockPoller =
  conf :: config
  is_running :: bool
  risk_manager :: RiskManager
  monitored_stocks :: "(string \<times> MonitoredStock) list"
  active_trades :: "(string \<times> ActiveTrade) list"
  watchlist :: "string set"
  inactive_poll_interval :: int
  active_poll_interval :: int
  last_screening_time :: "datetime option"
  last_inactive_poll :: "datetime option"
  last_active_poll :: "datetime option"
  market_open_hour :: nat
  market_open_minute :: nat
  force_exit_hour :: nat
  force_exit_minute :: nat
  daily_screening_done :: bool
  force_exit_triggered :: bool
  calls :: "call list"

definition StockPoller_init :: "config \<Rightarrow> RiskManager \<Rightarrow> StockPoller" where
  "StockPoller_init cfg rm =
     \<lparr> conf = cfg, is_running = False, risk_manager = rm, monitored_stocks = [],
       active_trades = [], watchlist = {},
       inactive_poll_interval = INACTIVE_POLL_INTERVAL cfg,
       active_poll_interval = ACTIVE_POLL_INTERVAL cfg,
       last_screening_time = None, last_inactive_poll = None, last_active_poll = None,
       market_open_hour = MARKET_OPEN_HOUR cfg, market_open_minute = MARKET_OPEN_MINUTE cfg,
       force_exit_hour = FORCE_EXIT_HOUR cfg, force_exit_minute = FORCE_EXIT_MINUTE cfg,
       daily_screening_done = False, force_exit_triggered = False, calls = [] \<rparr>"

definition is_market_hours :: "StockPoller \<Rightarrow> datetime \<Rightarrow> bool" where
  "is_market_hours p now =
     (let market_open = now\<lparr> hour := market_open_hour p, minute := market_open_minute p,
                              second := 0, microsecond := 0 \<rparr>;
          market_close = now\<lparr> hour := 15, minute := 30, second := 0, microsecond := 0 \<rparr>
      in micros market_open \<le> micros now \<and> micros now \<le> micros market_close)"

definition should_force_exit :: "StockPoller \<Rightarrow> datetime \<Rightarrow> bool" where
  "should_force_exit p now =
     (let force_exit_time = now\<lparr> hour := force_exit_hour p, minute := force_exit_minute p,
                                  second := 0, microsecond := 0 \<rparr>
      in micros now \<ge> micros force_exit_time \<and> \<not> force_exit_triggered p)"

text \<open>
  \<^verbatim>\<open>exit_active_trade\<close>. When the broker refuses, nothing but the call has happened.
  When it accepts, the exit is logged, the outcome goes to the risk manager, and the symbol is
  deleted from the registry; \<^verbatim>\<open>del\<close> on a symbol that is not registered raises, and the
  \<^verbatim>\<open>except\<close> clause skips the rest.
\<close>

definition exit_active_trade ::
  "env \<Rightarrow> string \<Rightarrow> ActiveTrade \<Rightarrow> string \<Rightarrow> StockPoller \<Rightarrow> StockPoller" where
  "exit_active_trade e symb active_trade reason p =
     (let p0 = p\<lparr> calls := calls p @ [Exit_position symb] \<rparr>
      in if exit_position e symb then
           (let p1 = p0\<lparr> calls := calls p0 @ [Log_trade_exit (trade_id active_trade) reason] \<rparr>;
                (outcome, rm) =
                   record_trade_outcome (clock e) (risk_manager p1) symb
                     (entry_price active_trade) (current_price active_trade)
                     (quantity active_trade) (transaction_type active_trade);
                p2 = p1\<lparr> risk_manager := rm \<rparr>
            in if symb \<notin> set (map fst (active_trades p2)) then p2
               else p2\<lparr> active_trades := AList.delete symb (active_trades p2),
                        monitored_stocks :=
                          AList.map_entry symb (\<lambda>m. m\<lparr> is_active_trade := False \<rparr>)
                            (monitored_stocks p2) \<rparr>)
         else p0)"

text \<open>
  \<^verbatim>\<open>monitor_active_trade\<close>. \<^verbatim>\<open>not current_price\<close> holds for \<^verbatim>\<open>None\<close> and for
  a price of zero: the step then returns at once. Otherwise the trade object is updated in
  place; the caller hands over the object that is registered under the symbol, so the
  registry entry under the symbol (if there is one) takes the new fields. Then the
  \<^verbatim>\<open>if\<close>/\<^verbatim>\<open>elif\<close> chain chooses the exit reason.
\<close>

definition monitor_active_trade ::
  "env \<Rightarrow> string \<Rightarrow> ActiveTrade \<Rightarrow> StockPoller \<Rightarrow> StockPoller" where
  "monitor_active_trade e symb active_trade p =
     (case get_current_price e symb of
        None \<Rightarrow> p
      | Some price \<Rightarrow>
          if price = 0 then p
          else
            (let t1 = active_trade\<lparr> current_price := price, last_check_time := Some (clock e) \<rparr>;
                 t2 = t1\<lparr> unrealized_pnl :=
                            (if transaction_type t1 = ''BUY''
                             then (price - entry_price t1) * of_int (quantity t1)
                             else (entry_price t1 - price) * of_int (quantity t1)) \<rparr>;
                 p1 = p\<lparr> active_trades :=
                           AList.map_entry symb (\<lambda>_. t2) (active_trades p) \<rparr>;
                 exit_reason =
                   (if transaction_type t2 = ''BUY'' \<and> price \<le> stop_loss t2
                      then Some ''STOP_LOSS''
                    else if transaction_type t2 = ''SELL'' \<and> price \<ge> stop_loss t2
                      then Some ''STOP_LOSS''
                    else if transaction_type t2 = ''BUY'' \<and> price \<ge> target_price t2
                      then Some ''TARGET''
                    else if transaction_type t2 = ''SELL'' \<and> price \<le> target_price t2
                      then Some ''TARGET''
                    else if total_seconds (clock e) (entry_time t2) > 14400
                      then Some ''TIME_LIMIT''
                    else if should_force_exit p1 (clock e)
                      then Some ''FORCE_EXIT''
                    else None)
             in case exit_reason of
                  Some reason \<Rightarrow> exit_active_trade e symb t2 reason p1
                | None \<Rightarrow> p1))"

text \<open>
  \<^verbatim>\<open>poll_active_trades\<close> walks a snapshot of the registry items. Each trade object is
  touched only in its own iteration, so the snapshot holds its state at that moment.
\<close>

definition poll_active_trades :: "env \<Rightarrow> StockPoller \<Rightarrow> StockPoller" where
  "poll_active_trades e p =
     (if active_trades p = [] then p
      else (foldl (\<lambda>q (symb, active_trade). monitor_active_trade e symb active_trade q)
              p (active_trades p))
             \<lparr> last_active_poll := Some (clock e) \<rparr>)"

text \<open>
  The loop of \<^verbatim>\<open>force_exit_all_trades\<close> walks a snapshot of the keys and looks each
  trade up again; a missing key raises (\<open>Inl\<close>, with the state reached so far).
\<close>

fun force_exit_loop :: "env \<Rightarrow> string list \<Rightarrow> StockPoller \<Rightarrow> StockPoller + StockPoller" where
  "force_exit_loop e [] p = Inr p"
| "force_exit_loop e (symb # rest) p =
     (case map_of (active_trades p) symb of
        None \<Rightarrow> Inl p
      | Some active_trade \<Rightarrow>
          force_exit_loop e rest (exit_active_trade e symb active_trade ''MARKET_CLOSE'' p))"

definition force_exit_all_trades :: "env \<Rightarrow> StockPoller \<Rightarrow> StockPoller" where
  "force_exit_all_trades e p =
     (if force_exit_triggered p then p
      else (case force_exit_loop e (map fst (active_trades p)) p of
              Inl p1 \<Rightarrow> p1
            | Inr p1 \<Rightarrow>
                p1\<lparr> calls := calls p1 @ [Force_exit_all_positions],
                    force_exit_triggered := True \<rparr>))"

text \<open>
  \<^verbatim>\<open>execute_trade_decision\<close>. The quantity divides by the entry price; a zero entry price
  raises and the \<^verbatim>\<open>except\<close> clause leaves the state as it was.
\<close>

definition execute_trade_decision ::
  "env \<Rightarrow> string \<Rightarrow> decision_result \<Rightarrow> StockPoller \<Rightarrow> StockPoller" where
  "execute_trade_decision e symb decision_res p =
     (let ai = ai_decision_of decision_res
      in if entry_price_ai ai = 0 then p
         else
           (let qty = py_int (position_size_ai ai * INITIAL_CAPITAL (conf p) / entry_price_ai ai);
                p0 = p\<lparr> calls := calls p @ [Place_bracket_order symb qty] \<rparr>
            in if place_bracket_order e symb qty then
                 (let active_trade =
                        \<lparr> trade_id = log_trade_execution e symb, symbol = symb,
                          entry_time = clock e, entry_price = entry_price_ai ai,
                          stop_loss = stop_loss_ai ai, target_price = target_price_ai ai,
                          quantity = qty, transaction_type = decision ai,
                          current_price = entry_price_ai ai, unrealized_pnl = 0,
                          last_check_time = None \<rparr>
                  in p0\<lparr> active_trades := AList.update symb active_trade (active_trades p0),
                         monitored_stocks :=
                           AList.map_entry symb (\<lambda>m. m\<lparr> is_active_trade := True \<rparr>)
                             (monitored_stocks p0) \<rparr>)
               else p0))"

definition analyze_and_decide ::
  "env \<Rightarrow> string \<Rightarrow> MonitoredStock \<Rightarrow> StockPoller \<Rightarrow> StockPoller" where
  "analyze_and_decide e symb monitored_stock p =
     (let decision_res = make_trading_decision e symb;
          p1 = (if should_trade decision_res then execute_trade_decision e symb decision_res p
                else p)
      in p1\<lparr> monitored_stocks :=
               AList.map_entry symb (\<lambda>m. m\<lparr> last_analysis_time := clock e \<rparr>)
                 (monitored_stocks p1) \<rparr>)"

text \<open>
  \<^verbatim>\<open>poll_inactive_stocks\<close>: the account check is made once, before the loop over a
  snapshot of the monitored stocks.
\<close>

definition poll_inactive_stocks :: "env \<Rightarrow> StockPoller \<Rightarrow> StockPoller" where
  "poll_inactive_stocks e p =
     (if monitored_stocks p = [] then p
      else
        (let (account_risk, rm) =
               check_trading_allowed (clock e) (risk_manager p) (positions e);
             p1 = p\<lparr> risk_manager := rm \<rparr>
         in if \<not> is_trading_allowed account_risk then p1
            else (foldl (\<lambda>q (symb, monitored_stock).
                           if is_active_trade monitored_stock then q
                           else analyze_and_decide e symb monitored_stock q)
                    p1 (monitored_stocks p1))
                   \<lparr> last_inactive_poll := Some (clock e) \<rparr>))"

definition reset_daily_state :: "datetime \<Rightarrow> StockPoller \<Rightarrow> StockPoller" where
  "reset_daily_state now p =
     p\<lparr> daily_screening_done := False, force_exit_triggered := False,
        monitored_stocks := [], active_trades := [], watchlist := {},
        risk_manager := reset_daily_metrics (date now) (risk_manager p) \<rparr>"

definition daily_market_screening :: "env \<Rightarrow> StockPoller \<Rightarrow> StockPoller" where
  "daily_market_screening e p =
     (case screen_top_stocks e of
        None \<Rightarrow> p
      | Some screened_stocks \<Rightarrow>
          if screened_stocks = [] then p
          else
            (case analyze_sentiment e of
               None \<Rightarrow> p
             | Some sentiment \<Rightarrow>
                 (foldl (\<lambda>q (symb, score).
                           q\<lparr> monitored_stocks :=
                                AList.update symb
                                  \<lparr> stock_symbol = symb, added_time = clock e,
                                    last_analysis_time = clock e,
                                    sentiment_score = sentiment symb,
                                    technical_score = score, is_active_trade = False \<rparr>
                                  (monitored_stocks q),
                              watchlist := insert symb (watchlist q) \<rparr>)
                    p screened_stocks)
                   \<lparr> daily_screening_done := True, last_screening_time := Some (clock e) \<rparr>))"

text \<open>One iteration of the loop of \<^verbatim>\<open>run_continuous_polling\<close>.\<close>

definition tick :: "env \<Rightarrow> StockPoller \<Rightarrow> StockPoller" where
  "tick e p0 =
     (let now = clock e;
          p = (case last_screening_time p0 of
                 None \<Rightarrow> p0
               | Some t \<Rightarrow> if date now > date t then reset_daily_state now p0 else p0)
      in if \<not> is_market_hours p now then p
         else if should_force_exit p now then force_exit_all_trades e p
         else
           (let p1 = (if \<not> daily_screening_done p then daily_market_screening e p else p);
                p2 = (case last_active_poll p1 of
                        None \<Rightarrow> poll_active_trades e p1
                      | Some t \<Rightarrow>
                          if total_seconds now t \<ge> of_int (active_poll_interval p1)
                          then poll_active_trades e p1 else p1);
                p3 = (case last_inactive_poll p2 of
                        None \<Rightarrow> poll_inactive_stocks e p2
                      | Some t \<Rightarrow>
                          if total_seconds now t \<ge> of_int (inactive_poll_interval p2)
                          then poll_inactive_stocks e p2 else p2)
            in p3))"

section \<open>Concrete states and inputs used to exercise the theorems\<close>

definition ten_am :: datetime where
  "ten_am = \<lparr> day = 100, hour = 10, minute = 0, second = 0, microsecond = 0 \<rparr>"

definition fresh_manager :: RiskManager where
  "fresh_manager = RiskManager_init default_config 100"

definition manager_three_losses :: RiskManager where
  "manager_three_losses = fresh_manager\<lparr> daily_loss_count := 3, daily_pnl := 250 \<rparr>"

definition manager_drawdown :: RiskManager where
  "manager_drawdown = fresh_manager\<lparr> daily_pnl := - 6000 \<rparr>"

definition five_to_three :: datetime where
  "five_to_three = \<lparr> day = 100, hour = 14, minute = 55, second = 0, microsecond = 0 \<rparr>"

definition manager_after_loss :: RiskManager where
  "manager_after_loss =
     snd (record_trade_outcome ten_am fresh_manager ''RELIANCE'' 2500 2450 10 ''BUY'')"

definition half_past_nine :: datetime where
  "half_past_nine = \<lparr> day = 100, hour = 9, minute = 30, second = 0, microsecond = 0 \<rparr>"

definition one_past_ten :: datetime where
  "one_past_ten = \<lparr> day = 100, hour = 10, minute = 1, second = 0, microsecond = 0 \<rparr>"

definition two_pm :: datetime where
  "two_pm = \<lparr> day = 100, hour = 14, minute = 0, second = 0, microsecond = 0 \<rparr>"

definition quarter_past_three :: datetime where
  "quarter_past_three = \<lparr> day = 100, hour = 15, minute = 15, second = 0, microsecond = 0 \<rparr>"

definition next_morning :: datetime where
  "next_morning = \<lparr> day = 101, hour = 8, minute = 0, second = 0, microsecond = 0 \<rparr>"

definition reliance_trade :: ActiveTrade where
  "reliance_trade =
     \<lparr> trade_id = ''T1'', symbol = ''RELIANCE'', entry_time = half_past_nine,
       entry_price = 2500, stop_loss = 2450, target_price = 2600, quantity = 20,
       transaction_type = ''BUY'', current_price = 2500, unrealized_pnl = 0,
       last_check_time = None \<rparr>"

definition watched :: "string \<Rightarrow> bool \<Rightarrow> MonitoredStock" where
  "watched symb active =
     \<lparr> stock_symbol = symb, added_time = half_past_nine, last_analysis_time = half_past_nine,
       sentiment_score = 1 / 2, technical_score = 1 / 2, is_active_trade = active \<rparr>"

definition poller_one_trade :: StockPoller where
  "poller_one_trade =
     (StockPoller_init default_config fresh_manager)
       \<lparr> monitored_stocks := [(''RELIANCE'', watched ''RELIANCE'' True)],
         active_trades := [(''RELIANCE'', reliance_trade)],
         daily_screening_done := True,
         last_screening_time := Some half_past_nine \<rparr>"

definition poller_two_trades :: StockPoller where
  "poller_two_trades =
     poller_one_trade
       \<lparr> monitored_stocks := [(''RELIANCE'', watched ''RELIANCE'' True), (''TCS'', watched ''TCS'' True)],
         active_trades :=
           [(''RELIANCE'', reliance_trade),
            (''TCS'', reliance_trade\<lparr> trade_id := ''T2'', symbol := ''TCS'' \<rparr>)] \<rparr>"

definition buy_decision :: decision_result where
  "buy_decision =
     \<lparr> should_trade = True,
       ai_decision_of =
         \<lparr> decision = ''BUY'', position_size_ai = 1 / 100, entry_price_ai = 500,
           stop_loss_ai = 490, target_price_ai = 520 \<rparr> \<rparr>"

definition expensive_decision :: decision_result where
  "expensive_decision =
     \<lparr> should_trade = True,
       ai_decision_of =
         \<lparr> decision = ''BUY'', position_size_ai = 1 / 100, entry_price_ai = 2500,
           stop_loss_ai = 2450, target_price_ai = 2600 \<rparr> \<rparr>"

text \<open>
  An environment in which every symbol trades at \<open>price\<close>, the broker answers every exit
  request with \<open>ok\<close> and accepts every order, no broker position is open, and the decision
  engine approves a purchase of every symbol.
\<close>

definition env_at :: "datetime \<Rightarrow> rat \<Rightarrow> bool \<Rightarrow> env" where
  "env_at t price ok =
     \<lparr> clock = t, get_current_price = (\<lambda>_. Some price), exit_position = (\<lambda>_. ok),
       place_bracket_order = (\<lambda>_ _. True), positions = [],
       make_trading_decision = (\<lambda>_. buy_decision),
       log_trade_execution = (\<lambda>symb. ''TRADE_'' @ symb),
       screen_top_stocks = Some [], analyze_sentiment = Some (\<lambda>_. 0) \<rparr>"

text \<open>The same, with a broker that accepts the exit of one symbol only.\<close>

definition env_only :: "string \<Rightarrow> datetime \<Rightarrow> rat \<Rightarrow> env" where
  "env_only symb t price = (env_at t price True)\<lparr> exit_position := (\<lambda>s. s = symb) \<rparr>"

definition poller_three_stocks :: StockPoller where
  "poller_three_stocks =
     (StockPoller_init default_config fresh_manager)
       \<lparr> monitored_stocks :=
           [(''ITC'', watched ''ITC'' False), (''SBIN'', watched ''SBIN'' False),
            (''WIPRO'', watched ''WIPRO'' False)],
         daily_screening_done := True,
         last_screening_time := Some half_past_nine \<rparr>"

section \<open>Position sizing\<close>

lemma reset_keeps_parameters [simp]:
  "min_risk_reward (reset_daily_metrics today rm) = min_risk_reward rm"
  "max_capital_per_trade (reset_daily_metrics today rm) = max_capital_per_trade rm"
  "initial_capital (reset_daily_metrics today rm) = initial_capital rm"
  "max_active_trades (reset_daily_metrics today rm) = max_active_trades rm"
  "max_daily_losses (reset_daily_metrics today rm) = max_daily_losses rm"
  "max_daily_drawdown (reset_daily_metrics today rm) = max_daily_drawdown rm"
  by (simp_all add: reset_daily_metrics_def Let_def)

lemma to_double_zero [simp]: "to_double 0 = 0"
  by (simp add: to_double_def)


lemma fresh_manager_capital:
  "get_current_capital fresh_manager = 100000"
  "max_capital_per_trade fresh_manager = 1 / 100"
  "min_risk_reward fresh_manager = 3 / 2"
  by (simp_all add: fresh_manager_def RiskManager_init_def default_config_def
      get_current_capital_def)

lemma position_size_rounded_up:
  "calculate_position_size fresh_manager (4139337892803765 / 70368744177664) 0 None
     = (17, 8796093022208001 / 8796093022208)"
  "calculate_position_size fresh_manager (4139337892803765 / 70368744177664)
     (4139337892803765 / 35184372088832) None
     = (17, 8796093022208001 / 8796093022208)"
  by code_simp+

text \<open>
  Claim C1 on the code. The capital is 100000 and the per-trade fraction 0.01, so the risk
  amount is 1000. The entry price is the double 58.82352941176471, which is
  \<^verbatim>\<open>4139337892803765 / 2^46\<close>, and the stop is 0 (or, for a short sale, twice the entry
  price), so the risk per share is the entry price. The exact quotient of 1000 by it lies
  just below 17 and the double division rounds it to 17.0, so the function returns 17 shares
  and the risk 1000.0000000000001: the returned risk, and the exact product of 17 and the
  risk per share as well, exceed the risk amount of 1000. The validation of such a trade then
  rejects it for a capital-at-risk fraction above the per-trade cap.
\<close>

theorem position_size_exceeds_risk:
  "get_current_capital fresh_manager * max_capital_per_trade fresh_manager = 1000
   \<and> (4139337892803765 / 70368744177664 :: rat) \<noteq> 0
   \<and> calculate_position_size fresh_manager (4139337892803765 / 70368744177664) 0 None
       = (17, 8796093022208001 / 8796093022208)
   \<and> calculate_position_size fresh_manager (4139337892803765 / 70368744177664)
        (4139337892803765 / 35184372088832) None
       = (17, 8796093022208001 / 8796093022208)
   \<and> of_int 17 * \<bar>4139337892803765 / 70368744177664 - 0\<bar>
       > get_current_capital fresh_manager * max_capital_per_trade fresh_manager
   \<and> (8796093022208001 / 8796093022208 :: rat)
       > get_current_capital fresh_manager * max_capital_per_trade fresh_manager
   \<and> rejection_reason
         (fst (validate_trade_risk 100 fresh_manager ''ITC''
                 (4139337892803765 / 70368744177664) 0 200 (4 / 5)))
       = Some (Capital_at_risk_exceeds_limit
                 (8796093022208001 / 879609302220800000) (1 / 100))"
proof -
  have r: "reset_daily_metrics 100 fresh_manager = fresh_manager"
    by (simp add: reset_daily_metrics_def fresh_manager_def RiskManager_init_def)
  show ?thesis
    by (simp add: fresh_manager_capital position_size_rounded_up validate_trade_risk_def r
        Let_def)
qed

section \<open>Trade validation\<close>



section \<open>Account-level permission\<close>

lemma reset_no_drawdown_error:
  "start_of_day_capital rm \<noteq> 0 \<Longrightarrow>
   \<not> (get_current_capital (reset_daily_metrics today rm)
          < start_of_day_capital (reset_daily_metrics today rm)
        \<and> start_of_day_capital (reset_daily_metrics today rm) = 0)"
  by (simp add: reset_daily_metrics_def Let_def get_current_capital_def)

text \<open>
  Claim C3. Provided the day's starting capital is not zero (so that the drawdown fraction is
  defined), \<^verbatim>\<open>check_trading_allowed\<close> first applies the daily reset, and its status is
  \<^verbatim>\<open>MAX_TRADES_REACHED\<close> if the number of positions reaches the cap, else
  \<^verbatim>\<open>MAX_DAILY_LOSSES\<close> if the loss count reaches its cap, else
  \<^verbatim>\<open>MAX_DRAWDOWN_EXCEEDED\<close> if the updated maximum drawdown reaches its cap, else
  \<^verbatim>\<open>NEAR_MARKET_CLOSE\<close> inside the close window, else \<^verbatim>\<open>NORMAL\<close>. Trading is
  allowed exactly when the status is \<^verbatim>\<open>NORMAL\<close>. A loss count at its cap, below the
  trade cap, gives \<^verbatim>\<open>MAX_DAILY_LOSSES\<close> whatever the profit and loss is.
\<close>

theorem check_trading_allowed_priority:
  assumes "start_of_day_capital rm0 \<noteq> 0"
  shows
  "(let rm = reset_daily_metrics (date now) rm0;
        acc = fst (check_trading_allowed now rm0 active_positions);
        rm' = snd (check_trading_allowed now rm0 active_positions);
        n = int (length active_positions)
    in last_reset_date rm' = date now
     \<and> daily_loss_count rm' = daily_loss_count rm
     \<and> daily_pnl rm' = sum_list (map snd active_positions)
     \<and> max_drawdown_today rm' =
          (if get_current_capital rm < start_of_day_capital rm
           then max (max_drawdown_today rm)
                  ((start_of_day_capital rm - get_current_capital rm) / start_of_day_capital rm)
           else max_drawdown_today rm)
     \<and> risk_status acc =
          (if n \<ge> max_active_trades rm0 then ''MAX_TRADES_REACHED''
           else if daily_loss_count rm \<ge> max_daily_losses rm0 then ''MAX_DAILY_LOSSES''
           else if max_drawdown_today rm' \<ge> max_daily_drawdown rm0 then ''MAX_DRAWDOWN_EXCEEDED''
           else if is_near_market_close now then ''NEAR_MARKET_CLOSE''
           else ''NORMAL'')
     \<and> (is_trading_allowed acc \<longleftrightarrow> risk_status acc = ''NORMAL'')
     \<and> (n < max_active_trades rm0 \<and> daily_loss_count rm \<ge> max_daily_losses rm0 \<longrightarrow>
          risk_status acc = ''MAX_DAILY_LOSSES'' \<and> \<not> is_trading_allowed acc))"
proof -
  define rm where "rm = reset_daily_metrics (date now) rm0"
  have ne: "\<not> (get_current_capital rm < start_of_day_capital rm \<and> start_of_day_capital rm = 0)"
    unfolding rm_def using assms by (rule reset_no_drawdown_error)
  have d: "last_reset_date rm = date now"
    by (simp add: rm_def reset_daily_metrics_def Let_def)
  have p: "max_active_trades rm = max_active_trades rm0" "max_daily_losses rm = max_daily_losses rm0"
    "max_daily_drawdown rm = max_daily_drawdown rm0"
    by (simp_all add: rm_def)
  show ?thesis
    unfolding Let_def rm_def[symmetric]
    using ne d p
    by (cases "get_current_capital rm < start_of_day_capital rm")
       (auto simp add: check_trading_allowed_def Let_def rm_def[symmetric])
qed


text \<open>
  The theorem on five concrete accounts, one for each status; the account with three losses
  has a positive profit and loss.
\<close>

theorem check_trading_allowed_priority_witness:
  "start_of_day_capital manager_three_losses \<noteq> 0
   \<and> start_of_day_capital fresh_manager \<noteq> 0
   \<and> start_of_day_capital manager_drawdown \<noteq> 0
   \<and> risk_status (fst (check_trading_allowed ten_am manager_three_losses [(''TCS'', 400)]))
       = ''MAX_DAILY_LOSSES''
   \<and> \<not> is_trading_allowed (fst (check_trading_allowed ten_am manager_three_losses [(''TCS'', 400)]))
   \<and> risk_status (fst (check_trading_allowed ten_am manager_three_losses
                          [(''TCS'', 400), (''INFY'', - 20)]))
       = ''MAX_TRADES_REACHED''
   \<and> risk_status (fst (check_trading_allowed ten_am manager_drawdown [])) = ''MAX_DRAWDOWN_EXCEEDED''
   \<and> risk_status (fst (check_trading_allowed five_to_three fresh_manager [])) = ''NEAR_MARKET_CLOSE''
   \<and> risk_status (fst (check_trading_allowed ten_am fresh_manager [])) = ''NORMAL''
   \<and> is_trading_allowed (fst (check_trading_allowed ten_am fresh_manager []))"
proof -
  have s: "start_of_day_capital manager_three_losses \<noteq> 0"
    "start_of_day_capital fresh_manager \<noteq> 0"
    "start_of_day_capital manager_drawdown \<noteq> 0"
    by (simp_all add: manager_three_losses_def manager_drawdown_def fresh_manager_def
        RiskManager_init_def default_config_def)
  have r: "reset_daily_metrics (date ten_am) manager_three_losses = manager_three_losses"
    "reset_daily_metrics (date ten_am) manager_drawdown = manager_drawdown"
    "reset_daily_metrics (date ten_am) fresh_manager = fresh_manager"
    "reset_daily_metrics (date five_to_three) fresh_manager = fresh_manager"
    by (simp_all add: reset_daily_metrics_def manager_three_losses_def manager_drawdown_def
        fresh_manager_def RiskManager_init_def date_def ten_am_def five_to_three_def)
  have v: "max_active_trades manager_three_losses = 2" "max_daily_losses manager_three_losses = 3"
    "daily_loss_count manager_three_losses = 3"
    "max_active_trades manager_drawdown = 2" "max_daily_losses manager_drawdown = 3"
    "daily_loss_count manager_drawdown = 0" "max_daily_drawdown manager_drawdown = 1 / 20"
    "max_drawdown_today manager_drawdown = 0"
    "get_current_capital manager_drawdown = 94000" "start_of_day_capital manager_drawdown = 100000"
    "max_active_trades fresh_manager = 2" "max_daily_losses fresh_manager = 3"
    "daily_loss_count fresh_manager = 0" "max_daily_drawdown fresh_manager = 1 / 20"
    "max_drawdown_today fresh_manager = 0"
    "get_current_capital fresh_manager = 100000" "start_of_day_capital fresh_manager = 100000"
    by (simp_all add: manager_three_losses_def manager_drawdown_def fresh_manager_def
        RiskManager_init_def default_config_def get_current_capital_def)
  have t: "is_near_market_close five_to_three" "\<not> is_near_market_close ten_am"
    by (simp_all add: is_near_market_close_def five_to_three_def ten_am_def Let_def
        total_seconds_def micros_def)
  show ?thesis
    using check_trading_allowed_priority [OF s(1), of ten_am "[(''TCS'', 400)]"]
      check_trading_allowed_priority [OF s(1), of ten_am "[(''TCS'', 400), (''INFY'', - 20)]"]
      check_trading_allowed_priority [OF s(3), of ten_am "[]"]
      check_trading_allowed_priority [OF s(2), of five_to_three "[]"]
      check_trading_allowed_priority [OF s(2), of ten_am "[]"]
    by (simp add: Let_def s r v t)
qed

lemma near_close_iff:
  assumes "minute now < 60" "second now < 60" "microsecond now < 1000000"
  shows "is_near_market_close now \<longleftrightarrow>
     hour now \<ge> 15
     \<or> (hour now = 14
        \<and> (minute now > 50 \<or> (minute now = 50 \<and> (second now > 0 \<or> microsecond now > 0))))"
proof (cases "hour now \<ge> 15")
  case True
  then show ?thesis by (simp add: is_near_market_close_def)
next
  case False
  show ?thesis
  proof (cases "hour now = 14")
    case True
    then show ?thesis
      using assms by (auto simp add: is_near_market_close_def Let_def total_seconds_def micros_def)
  next
    case False
    with \<open>\<not> hour now \<ge> 15\<close> have "hour now \<le> 13" by simp
    then show ?thesis
      using assms False
      by (simp add: is_near_market_close_def Let_def total_seconds_def micros_def)
  qed
qed

section \<open>Recording trade outcomes\<close>

text \<open>
  A quantity of zero does reach the risk manager: \<^verbatim>\<open>execute_trade_decision\<close> computes
  \<^verbatim>\<open>int(position_size * INITIAL_CAPITAL / entry_price)\<close>, which is zero for a position
  size of 0.01, a capital of 100000 and an entry price of 2500, and registers the trade when
  the broker accepts the order.
\<close>

lemma zero_quantity_trade_is_opened:
  "map (quantity \<circ> snd)
     (active_trades
        (execute_trade_decision (env_at ten_am 2500 True) ''RELIANCE'' expensive_decision
           (StockPoller_init default_config fresh_manager))) = [0]"
proof -
  have "py_int (1 / 100 * 100000 / 2500) = 0"
    by (simp add: py_int_def floor_eq_iff)
  then show ?thesis
    by (simp add: execute_trade_decision_def Let_def expensive_decision_def env_at_def
        StockPoller_init_def default_config_def)
qed

text \<open>
  Claim C6, as stated, at a quantity of zero: the percentage return divides by zero, the
  \<^verbatim>\<open>except\<close> clause returns the empty dictionary, and no record is appended.
\<close>

theorem record_trade_outcome_counterexample:
  "record_trade_outcome ten_am fresh_manager ''RELIANCE'' 2500 2450 0 ''BUY''
     = (None, fresh_manager)
   \<and> daily_trades (snd (record_trade_outcome ten_am fresh_manager ''RELIANCE'' 2500 2450 0 ''BUY''))
       = []"
  by (simp add: record_trade_outcome_def fresh_manager_def RiskManager_init_def)

text \<open>
  Claim C6, amended. Whenever \<open>entry * qty\<close> is not zero, \<^verbatim>\<open>record_trade_outcome\<close>
  computes the profit and loss as \<open>(exit - entry) * qty\<close> for side \<^verbatim>\<open>BUY\<close> and
  \<open>(entry - exit) * qty\<close> otherwise, appends the outcome record to \<open>daily_trades\<close>, adds
  the profit and loss to \<open>daily_pnl\<close>, and increments \<open>daily_loss_count\<close> if and only if
  the profit and loss is strictly negative.
\<close>

theorem record_trade_outcome_effect:
  "entry * of_int qty \<noteq> 0 \<longrightarrow>
   (let p = (if side = ''BUY'' then (exit_price - entry) * of_int qty
             else (entry - exit_price) * of_int qty);
        outcome = \<lparr> symbol_rec = symb, timestamp_rec = now, entry_price_rec = entry,
                    exit_price_rec = exit_price, quantity_rec = qty,
                    transaction_type_rec = side, pnl = p,
                    pnl_pct = p / (entry * of_int qty) * 100, is_loss = (p < 0) \<rparr>
    in record_trade_outcome now rm symb entry exit_price qty side =
         (Some outcome,
          rm\<lparr> daily_trades := daily_trades rm @ [outcome],
              daily_pnl := daily_pnl rm + p,
              daily_loss_count := (if p < 0 then daily_loss_count rm + 1
                                   else daily_loss_count rm) \<rparr>))"
  by (simp add: record_trade_outcome_def Let_def)

text \<open>A losing purchase followed by a winning short sale.\<close>

theorem record_trade_outcome_effect_witness:
  "(2500::rat) * of_int 10 \<noteq> 0
   \<and> daily_loss_count manager_after_loss = 1
   \<and> daily_pnl manager_after_loss = - 500
   \<and> map pnl (daily_trades manager_after_loss) = [- 500]
   \<and> daily_loss_count
        (snd (record_trade_outcome ten_am manager_after_loss ''TCS'' 3800 3700 5 ''SELL'')) = 1
   \<and> daily_pnl
        (snd (record_trade_outcome ten_am manager_after_loss ''TCS'' 3800 3700 5 ''SELL'')) = 0"
  using record_trade_outcome_effect [of 2500 10 "''BUY''" 2450 "''RELIANCE''" ten_am fresh_manager]
    record_trade_outcome_effect [of 3800 5 "''SELL''" 3700 "''TCS''" ten_am manager_after_loss]
  by (simp add: Let_def manager_after_loss_def fresh_manager_def RiskManager_init_def)

section \<open>The daily reset\<close>

lemma reset_same_date: "today = last_reset_date rm \<Longrightarrow> reset_daily_metrics today rm = rm"
  by (simp add: reset_daily_metrics_def)

lemma reset_last_date [simp]: "last_reset_date (reset_daily_metrics today rm) = today"
  by (simp add: reset_daily_metrics_def Let_def)

lemma reset_idem: "reset_daily_metrics today (reset_daily_metrics today rm) = reset_daily_metrics today rm"
  by (simp add: reset_same_date)

lemma validate_state: "snd (validate_trade_risk today rm symb entry stop target confidence) = reset_daily_metrics today rm"
  by (simp add: validate_trade_risk_def Let_def split_beta)

lemma check_state:
  "daily_trades (snd (check_trading_allowed now rm ps)) = daily_trades (reset_daily_metrics (date now) rm)"
  "daily_loss_count (snd (check_trading_allowed now rm ps)) = daily_loss_count (reset_daily_metrics (date now) rm)"
  "start_of_day_capital (snd (check_trading_allowed now rm ps)) = start_of_day_capital (reset_daily_metrics (date now) rm)"
  "last_reset_date (snd (check_trading_allowed now rm ps)) = date now"
  "initial_capital (snd (check_trading_allowed now rm ps)) = initial_capital rm"
  by (simp_all add: check_trading_allowed_def Let_def)

lemma summary_state: "snd (get_risk_summary now rm) = reset_daily_metrics (date now) rm"
  by (simp add: get_risk_summary_def Let_def)

text \<open>
  Claim C8, as stated, fails in three places. On a day without a date change
  \<^verbatim>\<open>check_trading_allowed\<close> overwrites \<open>daily_pnl\<close> with the unrealized total of the
  positions it is given and raises \<open>max_drawdown_today\<close>, so a risk check does change daily
  fields. A process restart on the same day runs \<^verbatim>\<open>__init__\<close> again, nothing being
  persisted: a manager that had reached three losses, and status \<^verbatim>\<open>MAX_DAILY_LOSSES\<close>, is
  replaced by one with no loss and status \<^verbatim>\<open>NORMAL\<close>, so the day's fields are cleared a
  second time for that date. And \<^verbatim>\<open>should_force_exit_all\<close> runs no reset: on the next
  morning it still answers from yesterday's three losses, where the reset state would answer
  no.
\<close>

theorem daily_reset_counterexample:
  "date ten_am = last_reset_date manager_after_loss
   \<and> daily_pnl manager_after_loss = - 500
   \<and> daily_pnl (snd (check_trading_allowed ten_am manager_after_loss [])) = 0
   \<and> max_drawdown_today manager_after_loss = 0
   \<and> max_drawdown_today (snd (check_trading_allowed ten_am manager_after_loss [])) = 1 / 200
   \<and> last_reset_date manager_three_losses = 100
   \<and> daily_loss_count manager_three_losses = 3
   \<and> risk_status (fst (check_trading_allowed ten_am manager_three_losses []))
       = ''MAX_DAILY_LOSSES''
   \<and> last_reset_date (RiskManager_init default_config 100) = 100
   \<and> daily_loss_count (RiskManager_init default_config 100) = 0
   \<and> risk_status (fst (check_trading_allowed ten_am (RiskManager_init default_config 100) []))
       = ''NORMAL''
   \<and> date next_morning \<noteq> last_reset_date manager_three_losses
   \<and> should_force_exit_all next_morning manager_three_losses
   \<and> \<not> should_force_exit_all next_morning
         (reset_daily_metrics (date next_morning) manager_three_losses)"
  by code_simp

text \<open>
  Claim C8, amended. Within one process run a reset takes effect exactly when the date differs
  from \<open>last_reset_date\<close>: it then clears \<open>daily_trades\<close>, \<open>daily_pnl\<close>,
  \<open>daily_loss_count\<close> and \<open>max_drawdown_today\<close>, recomputes \<open>start_of_day_capital\<close> and
  advances \<open>last_reset_date\<close> to the current date; on the same date it changes nothing, so
  a second reset for a date is the identity. A process start builds a fresh state, with the
  daily fields cleared and \<open>last_reset_date\<close> at the start date, whatever the state before
  was. \<^verbatim>\<open>validate_trade_risk\<close>, \<^verbatim>\<open>check_trading_allowed\<close> and
  \<^verbatim>\<open>get_risk_summary\<close> run the reset before anything else: the first and the last leave
  exactly the reset state (so no change on a day without a date change), and
  \<^verbatim>\<open>check_trading_allowed\<close> leaves \<open>last_reset_date\<close> at the current date and agrees with
  the reset state on \<open>daily_trades\<close>, \<open>daily_loss_count\<close> and \<open>start_of_day_capital\<close>, while
  it sets \<open>daily_pnl\<close> to the unrealized total of the positions and may raise
  \<open>max_drawdown_today\<close>. The poller's daily reset hands the risk manager to the same reset
  and is itself idempotent; a tick outside market hours on a date after the last screening
  performs it.
\<close>

theorem daily_reset_once_per_date:
  "(today \<noteq> last_reset_date rm \<longrightarrow>
      reset_daily_metrics today rm =
        rm\<lparr> daily_trades := [], daily_pnl := 0, daily_loss_count := 0, max_drawdown_today := 0,
            start_of_day_capital := initial_capital rm + 0, last_reset_date := today \<rparr>)
   \<and> (today = last_reset_date rm \<longrightarrow> reset_daily_metrics today rm = rm)
   \<and> reset_daily_metrics today (reset_daily_metrics today rm) = reset_daily_metrics today rm
   \<and> last_reset_date (reset_daily_metrics today rm) = today
   \<and> (let fresh = RiskManager_init cfg today
       in daily_trades fresh = [] \<and> daily_pnl fresh = 0 \<and> daily_loss_count fresh = 0
        \<and> max_drawdown_today fresh = 0 \<and> start_of_day_capital fresh = INITIAL_CAPITAL cfg
        \<and> last_reset_date fresh = today
        \<and> reset_daily_metrics today fresh = fresh)
   \<and> snd (validate_trade_risk today rm symb entry stop target confidence)
       = reset_daily_metrics today rm
   \<and> snd (get_risk_summary now rm) = reset_daily_metrics (date now) rm
   \<and> (let rm' = snd (check_trading_allowed now rm active_positions);
           r = reset_daily_metrics (date now) rm
       in last_reset_date rm' = date now
        \<and> daily_trades rm' = daily_trades r
        \<and> daily_loss_count rm' = daily_loss_count r
        \<and> start_of_day_capital rm' = start_of_day_capital r
        \<and> daily_pnl rm' = sum_list (map snd active_positions)
        \<and> max_drawdown_today rm' \<ge> max_drawdown_today r)
   \<and> risk_manager (reset_daily_state now p) = reset_daily_metrics (date now) (risk_manager p)
   \<and> reset_daily_state now (reset_daily_state now p) = reset_daily_state now p
   \<and> (last_screening_time p = Some t \<and> date (clock e) > date t
        \<and> \<not> is_market_hours p (clock e) \<longrightarrow>
        tick e p = reset_daily_state (clock e) p)"
proof -
  have m: "is_market_hours (reset_daily_state (clock e) p) (clock e) = is_market_hours p (clock e)"
    by (simp add: is_market_hours_def reset_daily_state_def)
  have c: "daily_pnl (snd (check_trading_allowed now rm active_positions))
             = sum_list (map snd active_positions)"
    "max_drawdown_today (snd (check_trading_allowed now rm active_positions))
       \<ge> max_drawdown_today (reset_daily_metrics (date now) rm)"
    by (simp_all add: check_trading_allowed_def Let_def)
  show ?thesis
    by (simp add: reset_same_date reset_idem validate_state summary_state check_state c Let_def
          reset_daily_state_def tick_def m [unfolded reset_daily_state_def])
       (simp add: reset_daily_metrics_def Let_def get_current_capital_def RiskManager_init_def)
qed

text \<open>
  The day after a losing trade, the same day again, a summary on that day, a process start,
  and a tick at eight the next morning.
\<close>

theorem daily_reset_once_per_date_witness:
  "(101::int) \<noteq> last_reset_date manager_after_loss
   \<and> daily_trades (reset_daily_metrics 101 manager_after_loss) = []
   \<and> daily_pnl (reset_daily_metrics 101 manager_after_loss) = 0
   \<and> daily_loss_count (reset_daily_metrics 101 manager_after_loss) = 0
   \<and> max_drawdown_today (reset_daily_metrics 101 manager_after_loss) = 0
   \<and> start_of_day_capital (reset_daily_metrics 101 manager_after_loss) = 100000
   \<and> last_reset_date (reset_daily_metrics 101 manager_after_loss) = 101
   \<and> (100::int) = last_reset_date manager_after_loss
   \<and> reset_daily_metrics 100 manager_after_loss = manager_after_loss
   \<and> snd (get_risk_summary ten_am manager_after_loss) = manager_after_loss
   \<and> daily_loss_count (RiskManager_init default_config 100) = 0
   \<and> last_screening_time poller_one_trade = Some half_past_nine
   \<and> date (clock (env_at next_morning 2500 True)) > date half_past_nine
   \<and> \<not> is_market_hours poller_one_trade (clock (env_at next_morning 2500 True))
   \<and> active_trades (tick (env_at next_morning 2500 True) poller_one_trade) = []
   \<and> last_reset_date (risk_manager (tick (env_at next_morning 2500 True) poller_one_trade))
       = 101"
proof -
  have d: "last_reset_date manager_after_loss = 100" "initial_capital manager_after_loss = 100000"
    by (simp_all add: manager_after_loss_def record_trade_outcome_def Let_def fresh_manager_def
        RiskManager_init_def default_config_def)
  have c: "clock (env_at next_morning 2500 True) = next_morning" by (simp add: env_at_def)
  have l: "last_screening_time poller_one_trade = Some half_past_nine"
    by (simp add: poller_one_trade_def)
  have g: "date half_past_nine = 100" "date next_morning = 101" "date ten_am = 100"
    by (simp_all add: date_def next_morning_def half_past_nine_def ten_am_def)
  have m: "\<not> is_market_hours poller_one_trade next_morning"
    by (simp add: is_market_hours_def poller_one_trade_def StockPoller_init_def
        default_config_def micros_def next_morning_def)
  show ?thesis
    using daily_reset_once_per_date [where today = 101 and rm = manager_after_loss]
      daily_reset_once_per_date [where today = 100 and rm = manager_after_loss
        and cfg = default_config and now = ten_am
        and p = poller_one_trade and t = half_past_nine
        and e = "env_at next_morning 2500 True"]
    by (simp add: d c l g m reset_daily_state_def Let_def)
qed

section \<open>The reference capital of the drawdown\<close>

lemma record_keeps [simp]:
  "start_of_day_capital (snd (record_trade_outcome now rm symb entry exit_price qty side)) = start_of_day_capital rm"
  "initial_capital (snd (record_trade_outcome now rm symb entry exit_price qty side)) = initial_capital rm"
  by (simp_all add: record_trade_outcome_def Let_def)

lemma reset_start: "start_of_day_capital rm = initial_capital rm \<Longrightarrow>
   start_of_day_capital (reset_daily_metrics today rm) = initial_capital rm"
  by (simp add: reset_daily_metrics_def Let_def get_current_capital_def)

lemma reachable_start:
  "manager_reachable cfg rm \<Longrightarrow>
     start_of_day_capital rm = INITIAL_CAPITAL cfg \<and> initial_capital rm = INITIAL_CAPITAL cfg"
proof (induction rule: manager_reachable.induct)
  case (reach_init today)
  then show ?case by (simp add: RiskManager_init_def)
next
  case (reach_reset rm today)
  then show ?case by (simp add: reset_start)
next
  case (reach_validate rm today symb entry stop target confidence)
  then show ?case by (simp add: validate_state reset_start)
next
  case (reach_check rm now active_positions)
  then show ?case by (simp add: check_state reset_start)
next
  case (reach_record rm now symb entry exit_price qty side)
  then show ?case by simp
qed

text \<open>
  Claim C10. After a daily reset \<open>start_of_day_capital\<close> equals \<open>initial_capital\<close>, whatever
  the profit and loss of the day before was, because \<open>daily_pnl\<close> is zero when the capital
  is recomputed. Hence in every state reachable from process start the starting capital is
  the configured initial capital, and the drawdown fraction that
  \<^verbatim>\<open>check_trading_allowed\<close> computes is measured against it.
\<close>

theorem start_of_day_capital_is_initial:
  "(today \<noteq> last_reset_date rm \<longrightarrow>
      start_of_day_capital (reset_daily_metrics today rm) = initial_capital rm
      \<and> daily_pnl (reset_daily_metrics today rm) = 0)
   \<and> (manager_reachable cfg rm \<longrightarrow>
        start_of_day_capital rm = INITIAL_CAPITAL cfg \<and> initial_capital rm = INITIAL_CAPITAL cfg)
   \<and> (manager_reachable cfg rm \<and> INITIAL_CAPITAL cfg \<noteq> 0 \<longrightarrow>
        (let r = reset_daily_metrics (date now) rm;
             capital = get_current_capital r
         in max_drawdown_today (snd (check_trading_allowed now rm active_positions)) =
              (if capital < INITIAL_CAPITAL cfg
               then max (max_drawdown_today r)
                      ((INITIAL_CAPITAL cfg - capital) / INITIAL_CAPITAL cfg)
               else max_drawdown_today r)))"
proof (intro conjI impI)
  assume "today \<noteq> last_reset_date rm"
  then show "start_of_day_capital (reset_daily_metrics today rm) = initial_capital rm"
    by (simp add: reset_daily_metrics_def Let_def get_current_capital_def)
next
  assume "today \<noteq> last_reset_date rm"
  then show "daily_pnl (reset_daily_metrics today rm) = 0"
    by (simp add: reset_daily_metrics_def Let_def)
next
  assume "manager_reachable cfg rm"
  then show "start_of_day_capital rm = INITIAL_CAPITAL cfg" by (simp add: reachable_start)
next
  assume "manager_reachable cfg rm"
  then show "initial_capital rm = INITIAL_CAPITAL cfg" by (simp add: reachable_start)
next
  assume a: "manager_reachable cfg rm \<and> INITIAL_CAPITAL cfg \<noteq> 0"
  define r where "r = reset_daily_metrics (date now) rm"
  have "manager_reachable cfg r" unfolding r_def using a by (simp add: reach_reset)
  then have s: "start_of_day_capital r = INITIAL_CAPITAL cfg" by (simp add: reachable_start)
  show "let r = reset_daily_metrics (date now) rm; capital = get_current_capital r
         in max_drawdown_today (snd (check_trading_allowed now rm active_positions)) =
              (if capital < INITIAL_CAPITAL cfg
               then max (max_drawdown_today r)
                      ((INITIAL_CAPITAL cfg - capital) / INITIAL_CAPITAL cfg)
               else max_drawdown_today r)"
    unfolding Let_def r_def[symmetric]
    using a s by (simp add: check_trading_allowed_def Let_def r_def[symmetric])
qed

text \<open>The manager after a loss of 500: the next day's reset, and the same day's drawdown.\<close>

theorem start_of_day_capital_is_initial_witness:
  "(101::int) \<noteq> last_reset_date manager_after_loss
   \<and> manager_reachable default_config manager_after_loss
   \<and> INITIAL_CAPITAL default_config \<noteq> 0
   \<and> daily_pnl manager_after_loss = - 500
   \<and> start_of_day_capital (reset_daily_metrics 101 manager_after_loss) = 100000
   \<and> start_of_day_capital manager_after_loss = 100000
   \<and> max_drawdown_today (snd (check_trading_allowed ten_am manager_after_loss [])) = 1 / 200"
proof -
  have d: "last_reset_date manager_after_loss = 100" "initial_capital manager_after_loss = 100000"
    "daily_pnl manager_after_loss = - 500" "max_drawdown_today manager_after_loss = 0"
    by (simp_all add: manager_after_loss_def record_trade_outcome_def Let_def fresh_manager_def
        RiskManager_init_def default_config_def)
  have r: "manager_reachable default_config manager_after_loss"
    unfolding manager_after_loss_def fresh_manager_def
    by (intro reach_record reach_init)
  have c: "INITIAL_CAPITAL default_config = 100000" by (simp add: default_config_def)
  have s: "reset_daily_metrics (date ten_am) manager_after_loss = manager_after_loss"
    by (simp add: reset_daily_metrics_def d date_def ten_am_def)
  show ?thesis
    using start_of_day_capital_is_initial [of 101 manager_after_loss default_config ten_am "[]"] r
    by (simp add: d c s Let_def get_current_capital_def)
qed

section \<open>Exit conditions of an active trade\<close>

lemma should_force_exit_registry [simp]:
  "should_force_exit (p\<lparr> active_trades := ats \<rparr>) now = should_force_exit p now"
  by (simp add: should_force_exit_def)

lemma monitor_active_trade_cases:
  assumes "get_current_price e symb = Some price" "price \<noteq> 0"
  shows
  "(let side = transaction_type active_trade;
        t' = active_trade
               \<lparr> current_price := price, last_check_time := Some (clock e),
                 unrealized_pnl :=
                   (if side = ''BUY'' then (price - entry_price active_trade)
                                              * of_int (quantity active_trade)
                    else (entry_price active_trade - price) * of_int (quantity active_trade)) \<rparr>;
        p' = p\<lparr> active_trades := AList.map_entry symb (\<lambda>_. t') (active_trades p) \<rparr>;
        stop_hit = (side = ''BUY'' \<and> price \<le> stop_loss active_trade
                    \<or> side = ''SELL'' \<and> price \<ge> stop_loss active_trade);
        target_hit = (side = ''BUY'' \<and> price \<ge> target_price active_trade
                      \<or> side = ''SELL'' \<and> price \<le> target_price active_trade);
        held_too_long = (total_seconds (clock e) (entry_time active_trade) > 14400);
        deadline = should_force_exit p (clock e)
    in monitor_active_trade e symb active_trade p =
         (if stop_hit then exit_active_trade e symb t' ''STOP_LOSS'' p'
          else if target_hit then exit_active_trade e symb t' ''TARGET'' p'
          else if held_too_long then exit_active_trade e symb t' ''TIME_LIMIT'' p'
          else if deadline then exit_active_trade e symb t' ''FORCE_EXIT'' p'
          else p'))"
proof (cases "transaction_type active_trade = ''BUY''")
  case True
  then show ?thesis
    using assms by (simp add: monitor_active_trade_def Let_def if_distrib [of "case_option a b" for a b] split del: if_split cong del: if_weak_cong)
next
  case nb: False
  show ?thesis
  proof (cases "transaction_type active_trade = ''SELL''")
    case True
    then show ?thesis
      using assms by (simp add: monitor_active_trade_def Let_def if_distrib [of "case_option a b" for a b] split del: if_split cong del: if_weak_cong)
  next
    case False
    then show ?thesis
      using assms nb by (simp add: monitor_active_trade_def Let_def if_distrib [of "case_option a b" for a b] split del: if_split cong del: if_weak_cong)
  qed
qed


lemma monitor_no_price:
  "get_current_price e symb = None \<or> get_current_price e symb = Some 0 \<Longrightarrow>
   monitor_active_trade e symb t p = p"
  by (auto simp add: monitor_active_trade_def)

lemma exit_active_trade_calls:
  "calls (exit_active_trade e symb t reason p) =
     calls p @ (Exit_position symb
                # (if exit_position e symb then [Log_trade_exit (trade_id t) reason] else []))"
  by (simp add: exit_active_trade_def Let_def split_beta)

text \<open>
  Claim C4. When a price has been obtained for the symbol (the code takes \<^verbatim>\<open>None\<close> and
  a zero price as "no price" and skips the trade), one monitoring step updates the trade's
  price fields and then checks, in this order, the stop loss, the target, a holding time of
  more than 14400 seconds, and the force-exit deadline; the first condition that holds gives
  the reason with which the exit is requested, and no condition means no exit. For a purchase
  with entry 2500, stop 2450 and target 2600, a price of exactly 2450 exits with
  \<^verbatim>\<open>STOP_LOSS\<close>, a price of exactly 2600 with \<^verbatim>\<open>TARGET\<close>, and a price strictly
  between after more than four hours with \<^verbatim>\<open>TIME_LIMIT\<close>. The reason is the one handed
  to the trade log when the broker accepts the exit. Without a price the step changes
  nothing.
\<close>

theorem monitor_exit_priority:
  "(get_current_price e symb = Some price \<and> price \<noteq> 0 \<longrightarrow>
      (let side = transaction_type active_trade;
           t' = active_trade
                  \<lparr> current_price := price, last_check_time := Some (clock e),
                    unrealized_pnl :=
                      (if side = ''BUY'' then (price - entry_price active_trade)
                                                 * of_int (quantity active_trade)
                       else (entry_price active_trade - price)
                              * of_int (quantity active_trade)) \<rparr>;
           p' = p\<lparr> active_trades := AList.map_entry symb (\<lambda>_. t') (active_trades p) \<rparr>;
           stop_hit = (side = ''BUY'' \<and> price \<le> stop_loss active_trade
                       \<or> side = ''SELL'' \<and> price \<ge> stop_loss active_trade);
           target_hit = (side = ''BUY'' \<and> price \<ge> target_price active_trade
                         \<or> side = ''SELL'' \<and> price \<le> target_price active_trade);
           held_too_long = (total_seconds (clock e) (entry_time active_trade) > 14400);
           deadline = should_force_exit p (clock e)
       in monitor_active_trade e symb active_trade p =
            (if stop_hit then exit_active_trade e symb t' ''STOP_LOSS'' p'
             else if target_hit then exit_active_trade e symb t' ''TARGET'' p'
             else if held_too_long then exit_active_trade e symb t' ''TIME_LIMIT'' p'
             else if deadline then exit_active_trade e symb t' ''FORCE_EXIT'' p'
             else p')))
   \<and> (transaction_type active_trade = ''BUY'' \<and> entry_price active_trade = 2500
        \<and> stop_loss active_trade = 2450 \<and> target_price active_trade = 2600
        \<and> get_current_price e symb = Some price \<longrightarrow>
        (let t' = active_trade
                    \<lparr> current_price := price, last_check_time := Some (clock e),
                      unrealized_pnl := (price - 2500) * of_int (quantity active_trade) \<rparr>;
             p' = p\<lparr> active_trades := AList.map_entry symb (\<lambda>_. t') (active_trades p) \<rparr>
         in (price = 2450 \<longrightarrow>
               monitor_active_trade e symb active_trade p
                 = exit_active_trade e symb t' ''STOP_LOSS'' p')
          \<and> (price = 2600 \<longrightarrow>
               monitor_active_trade e symb active_trade p
                 = exit_active_trade e symb t' ''TARGET'' p')
          \<and> (2450 < price \<and> price < 2600
               \<and> total_seconds (clock e) (entry_time active_trade) > 14400 \<longrightarrow>
               monitor_active_trade e symb active_trade p
                 = exit_active_trade e symb t' ''TIME_LIMIT'' p')))
   \<and> calls (exit_active_trade e symb active_trade reason p) =
        calls p @ (Exit_position symb
                   # (if exit_position e symb
                      then [Log_trade_exit (trade_id active_trade) reason] else []))
   \<and> (get_current_price e symb = None \<or> get_current_price e symb = Some 0 \<longrightarrow>
        monitor_active_trade e symb active_trade p = p)"
proof (intro conjI impI)
  assume a: "get_current_price e symb = Some price \<and> price \<noteq> 0"
  show "let side = transaction_type active_trade;
           t' = active_trade
                  \<lparr> current_price := price, last_check_time := Some (clock e),
                    unrealized_pnl :=
                      (if side = ''BUY'' then (price - entry_price active_trade)
                                                 * of_int (quantity active_trade)
                       else (entry_price active_trade - price)
                              * of_int (quantity active_trade)) \<rparr>;
           p' = p\<lparr> active_trades := AList.map_entry symb (\<lambda>_. t') (active_trades p) \<rparr>;
           stop_hit = (side = ''BUY'' \<and> price \<le> stop_loss active_trade
                       \<or> side = ''SELL'' \<and> price \<ge> stop_loss active_trade);
           target_hit = (side = ''BUY'' \<and> price \<ge> target_price active_trade
                         \<or> side = ''SELL'' \<and> price \<le> target_price active_trade);
           held_too_long = (total_seconds (clock e) (entry_time active_trade) > 14400);
           deadline = should_force_exit p (clock e)
       in monitor_active_trade e symb active_trade p =
            (if stop_hit then exit_active_trade e symb t' ''STOP_LOSS'' p'
             else if target_hit then exit_active_trade e symb t' ''TARGET'' p'
             else if held_too_long then exit_active_trade e symb t' ''TIME_LIMIT'' p'
             else if deadline then exit_active_trade e symb t' ''FORCE_EXIT'' p'
             else p')"
    using a by (intro monitor_active_trade_cases) simp_all
next
  assume b: "transaction_type active_trade = ''BUY'' \<and> entry_price active_trade = 2500
        \<and> stop_loss active_trade = 2450 \<and> target_price active_trade = 2600
        \<and> get_current_price e symb = Some price"
  have c: "price \<noteq> 0 \<Longrightarrow>
    (let side = transaction_type active_trade;
        t' = active_trade
               \<lparr> current_price := price, last_check_time := Some (clock e),
                 unrealized_pnl :=
                   (if side = ''BUY'' then (price - entry_price active_trade)
                                              * of_int (quantity active_trade)
                    else (entry_price active_trade - price) * of_int (quantity active_trade)) \<rparr>;
        p' = p\<lparr> active_trades := AList.map_entry symb (\<lambda>_. t') (active_trades p) \<rparr>;
        stop_hit = (side = ''BUY'' \<and> price \<le> stop_loss active_trade
                    \<or> side = ''SELL'' \<and> price \<ge> stop_loss active_trade);
        target_hit = (side = ''BUY'' \<and> price \<ge> target_price active_trade
                      \<or> side = ''SELL'' \<and> price \<le> target_price active_trade);
        held_too_long = (total_seconds (clock e) (entry_time active_trade) > 14400);
        deadline = should_force_exit p (clock e)
    in monitor_active_trade e symb active_trade p =
         (if stop_hit then exit_active_trade e symb t' ''STOP_LOSS'' p'
          else if target_hit then exit_active_trade e symb t' ''TARGET'' p'
          else if held_too_long then exit_active_trade e symb t' ''TIME_LIMIT'' p'
          else if deadline then exit_active_trade e symb t' ''FORCE_EXIT'' p'
          else p'))"
    using b by (intro monitor_active_trade_cases) simp_all
  show "let t' = active_trade
                    \<lparr> current_price := price, last_check_time := Some (clock e),
                      unrealized_pnl := (price - 2500) * of_int (quantity active_trade) \<rparr>;
             p' = p\<lparr> active_trades := AList.map_entry symb (\<lambda>_. t') (active_trades p) \<rparr>
         in (price = 2450 \<longrightarrow>
               monitor_active_trade e symb active_trade p
                 = exit_active_trade e symb t' ''STOP_LOSS'' p')
          \<and> (price = 2600 \<longrightarrow>
               monitor_active_trade e symb active_trade p
                 = exit_active_trade e symb t' ''TARGET'' p')
          \<and> (2450 < price \<and> price < 2600
               \<and> total_seconds (clock e) (entry_time active_trade) > 14400 \<longrightarrow>
               monitor_active_trade e symb active_trade p
                 = exit_active_trade e symb t' ''TIME_LIMIT'' p')"
    unfolding Let_def
  proof (intro conjI impI)
    assume "price = 2450"
    then show "monitor_active_trade e symb active_trade p =
      exit_active_trade e symb
        (active_trade\<lparr> current_price := price, last_check_time := Some (clock e),
            unrealized_pnl := (price - 2500) * of_int (quantity active_trade) \<rparr>)
        ''STOP_LOSS''
        (p\<lparr> active_trades := AList.map_entry symb
            (\<lambda>_. active_trade\<lparr> current_price := price, last_check_time := Some (clock e),
               unrealized_pnl := (price - 2500) * of_int (quantity active_trade) \<rparr>)
            (active_trades p) \<rparr>)"
      using b c by (simp add: Let_def)
  next
    assume "price = 2600"
    then show "monitor_active_trade e symb active_trade p =
      exit_active_trade e symb
        (active_trade\<lparr> current_price := price, last_check_time := Some (clock e),
            unrealized_pnl := (price - 2500) * of_int (quantity active_trade) \<rparr>)
        ''TARGET''
        (p\<lparr> active_trades := AList.map_entry symb
            (\<lambda>_. active_trade\<lparr> current_price := price, last_check_time := Some (clock e),
               unrealized_pnl := (price - 2500) * of_int (quantity active_trade) \<rparr>)
            (active_trades p) \<rparr>)"
      using b c by (simp add: Let_def)
  next
    assume "2450 < price \<and> price < 2600
               \<and> total_seconds (clock e) (entry_time active_trade) > 14400"
    then show "monitor_active_trade e symb active_trade p =
      exit_active_trade e symb
        (active_trade\<lparr> current_price := price, last_check_time := Some (clock e),
            unrealized_pnl := (price - 2500) * of_int (quantity active_trade) \<rparr>)
        ''TIME_LIMIT''
        (p\<lparr> active_trades := AList.map_entry symb
            (\<lambda>_. active_trade\<lparr> current_price := price, last_check_time := Some (clock e),
               unrealized_pnl := (price - 2500) * of_int (quantity active_trade) \<rparr>)
            (active_trades p) \<rparr>)"
      using b c by (simp add: Let_def)
  qed
next
  show "calls (exit_active_trade e symb active_trade reason p) =
        calls p @ (Exit_position symb
                   # (if exit_position e symb
                      then [Log_trade_exit (trade_id active_trade) reason] else []))"
    by (rule exit_active_trade_calls)
next
  assume "get_current_price e symb = None \<or> get_current_price e symb = Some 0"
  then show "monitor_active_trade e symb active_trade p = p" by (rule monitor_no_price)
qed

text \<open>
  The purchase of the specification at 2450, at 2600, after four and a half hours at 2500,
  a later purchase at the force-exit deadline, and a quiet tick.
\<close>

theorem monitor_exit_priority_witness:
  "get_current_price (env_at ten_am 2450 True) ''RELIANCE'' = Some 2450 \<and> (2450::rat) \<noteq> 0
   \<and> transaction_type reliance_trade = ''BUY'' \<and> entry_price reliance_trade = 2500
   \<and> stop_loss reliance_trade = 2450 \<and> target_price reliance_trade = 2600
   \<and> calls (monitor_active_trade (env_at ten_am 2450 True) ''RELIANCE'' reliance_trade
              poller_one_trade)
       = [Exit_position ''RELIANCE'', Log_trade_exit ''T1'' ''STOP_LOSS'']
   \<and> calls (monitor_active_trade (env_at ten_am 2600 True) ''RELIANCE'' reliance_trade
              poller_one_trade)
       = [Exit_position ''RELIANCE'', Log_trade_exit ''T1'' ''TARGET'']
   \<and> calls (monitor_active_trade (env_at two_pm 2500 True) ''RELIANCE'' reliance_trade
              poller_one_trade)
       = [Exit_position ''RELIANCE'', Log_trade_exit ''T1'' ''TIME_LIMIT'']
   \<and> calls (monitor_active_trade (env_at quarter_past_three 2500 True) ''RELIANCE''
              (reliance_trade\<lparr> entry_time := two_pm \<rparr>) poller_one_trade)
       = [Exit_position ''RELIANCE'', Log_trade_exit ''T1'' ''FORCE_EXIT'']
   \<and> calls (monitor_active_trade (env_at ten_am 2500 True) ''RELIANCE'' reliance_trade
              poller_one_trade) = []"
proof -
  have t: "total_seconds two_pm half_past_nine > 14400"
    "\<not> total_seconds ten_am half_past_nine > 14400"
    "\<not> total_seconds quarter_past_three two_pm > 14400"
    by (simp_all add: total_seconds_def micros_def two_pm_def half_past_nine_def ten_am_def
        quarter_past_three_def)
  have f: "should_force_exit poller_one_trade quarter_past_three"
    "\<not> should_force_exit poller_one_trade ten_am"
    by (simp_all add: should_force_exit_def poller_one_trade_def StockPoller_init_def
        default_config_def micros_def quarter_past_three_def ten_am_def)
  have c: "calls poller_one_trade = []"
    by (simp add: poller_one_trade_def StockPoller_init_def)
  have r: "transaction_type reliance_trade = ''BUY''" "entry_price reliance_trade = 2500"
    "stop_loss reliance_trade = 2450" "target_price reliance_trade = 2600"
    "entry_time reliance_trade = half_past_nine" "trade_id reliance_trade = ''T1''"
    by (simp_all add: reliance_trade_def)
  have e: "get_current_price (env_at d x ok) s = Some x" "clock (env_at d x ok) = d"
    "exit_position (env_at d x ok) s = ok" for d x ok s
    by (simp_all add: env_at_def)
  show ?thesis
    using monitor_exit_priority [of "env_at ten_am 2450 True" "''RELIANCE''" 2450 reliance_trade
        poller_one_trade]
      monitor_exit_priority [of "env_at ten_am 2600 True" "''RELIANCE''" 2600 reliance_trade
        poller_one_trade]
      monitor_exit_priority [of "env_at two_pm 2500 True" "''RELIANCE''" 2500 reliance_trade
        poller_one_trade]
      monitor_exit_priority [of "env_at quarter_past_three 2500 True" "''RELIANCE''" 2500
        "reliance_trade\<lparr> entry_time := two_pm \<rparr>" poller_one_trade]
      monitor_exit_priority [of "env_at ten_am 2500 True" "''RELIANCE''" 2500 reliance_trade
        poller_one_trade]
    by (simp add: Let_def t f c r e exit_active_trade_calls)
qed

section \<open>Forced exit at the end of the day\<close>

lemma one_trade_fields:
  "active_trades poller_one_trade = [(''RELIANCE'', reliance_trade)]"
  "calls poller_one_trade = []"
  "\<not> force_exit_triggered poller_one_trade"
  "force_exit_hour poller_one_trade = 15" "force_exit_minute poller_one_trade = 10"
  by (simp_all add: poller_one_trade_def StockPoller_init_def default_config_def)

lemma reliance_fields:
  "transaction_type reliance_trade = ''BUY''" "entry_price reliance_trade = 2500"
  "stop_loss reliance_trade = 2450" "target_price reliance_trade = 2600"
  "entry_time reliance_trade = half_past_nine" "trade_id reliance_trade = ''T1''"
  by (simp_all add: reliance_trade_def)

lemma env_at_fields:
  "get_current_price (env_at d x ok) s = Some x" "clock (env_at d x ok) = d"
  "exit_position (env_at d x ok) s = ok"
  by (simp_all add: env_at_def)

lemma exit_symbols_append: "exit_symbols (xs @ ys) = exit_symbols xs @ exit_symbols ys"
  by (induction xs rule: exit_symbols.induct) simp_all

lemma exit_active_trade_refused:
  "\<not> exit_position e symb \<Longrightarrow>
   exit_active_trade e symb t reason p = p\<lparr> calls := calls p @ [Exit_position symb] \<rparr>"
  by (simp add: exit_active_trade_def Let_def)

lemma exit_active_trade_keys:
  "map fst (active_trades (exit_active_trade e symb t reason p)) =
     (if exit_position e symb then removeAll symb (map fst (active_trades p))
      else map fst (active_trades p))"
  by (simp add: exit_active_trade_def Let_def split_beta delete_keys)

lemma exit_active_trade_flag:
  "force_exit_triggered (exit_active_trade e symb t reason p) = force_exit_triggered p"
  by (simp add: exit_active_trade_def Let_def split_beta)

lemma exit_active_trade_exit_symbols:
  "exit_symbols (calls (exit_active_trade e symb t reason p)) = exit_symbols (calls p) @ [symb]"
  by (simp add: exit_active_trade_calls exit_symbols_append)

lemma force_exit_loop_result:
  assumes "distinct ks" "set ks \<subseteq> set (map fst (active_trades p))"
  shows "\<exists>p'. force_exit_loop e ks p = Inr p'
           \<and> exit_symbols (calls p') = exit_symbols (calls p) @ ks
           \<and> map fst (active_trades p')
               = filter (\<lambda>s. \<not> (s \<in> set ks \<and> exit_position e s)) (map fst (active_trades p))
           \<and> force_exit_triggered p' = force_exit_triggered p"
  using assms
proof (induction ks arbitrary: p)
  case Nil
  then show ?case by simp
next
  case (Cons s ks)
  from Cons.prems have "s \<in> set (map fst (active_trades p))" by simp
  then obtain t where t: "map_of (active_trades p) s = Some t"
    by (metis map_of_eq_None_iff not_Some_eq set_map)
  define p1 where "p1 = exit_active_trade e s t ''MARKET_CLOSE'' p"
  have k1: "map fst (active_trades p1) =
     (if exit_position e s then removeAll s (map fst (active_trades p))
      else map fst (active_trades p))"
    by (simp add: p1_def exit_active_trade_keys)
  have sub: "set ks \<subseteq> set (map fst (active_trades p1))"
    using Cons.prems by (auto simp add: k1)
  from Cons.prems have d: "distinct ks" by simp
  from Cons.IH [OF d sub] obtain p' where
    l: "force_exit_loop e ks p1 = Inr p'"
    and c: "exit_symbols (calls p') = exit_symbols (calls p1) @ ks"
    and k: "map fst (active_trades p')
             = filter (\<lambda>x. \<not> (x \<in> set ks \<and> exit_position e x)) (map fst (active_trades p1))"
    and f: "force_exit_triggered p' = force_exit_triggered p1"
    by blast
  have "force_exit_loop e (s # ks) p = Inr p'"
    using t l by (simp add: p1_def)
  moreover have "exit_symbols (calls p') = exit_symbols (calls p) @ s # ks"
    using c by (simp add: p1_def exit_active_trade_exit_symbols)
  moreover have "map fst (active_trades p')
      = filter (\<lambda>x. \<not> (x \<in> set (s # ks) \<and> exit_position e x)) (map fst (active_trades p))"
    unfolding k k1
    by (auto simp add: removeAll_filter_not_eq intro: filter_cong)
  moreover have "force_exit_triggered p' = force_exit_triggered p"
    using f by (simp add: p1_def exit_active_trade_flag)
  ultimately show ?case by blast
qed

lemma force_exit_all_trades_result:
  assumes "\<not> force_exit_triggered p" "distinct (map fst (active_trades p))"
  shows "force_exit_triggered (force_exit_all_trades e p)
     \<and> exit_symbols (calls (force_exit_all_trades e p))
          = exit_symbols (calls p) @ map fst (active_trades p)
     \<and> last (calls (force_exit_all_trades e p)) = Force_exit_all_positions
     \<and> map fst (active_trades (force_exit_all_trades e p))
          = filter (\<lambda>s. \<not> exit_position e s) (map fst (active_trades p))"
proof -
  from force_exit_loop_result [OF assms(2), of p e] obtain p' where
    l: "force_exit_loop e (map fst (active_trades p)) p = Inr p'"
    and c: "exit_symbols (calls p') = exit_symbols (calls p) @ map fst (active_trades p)"
    and k: "map fst (active_trades p')
             = filter (\<lambda>s. \<not> (s \<in> set (map fst (active_trades p)) \<and> exit_position e s))
                 (map fst (active_trades p))"
    by auto
  have k': "map fst (active_trades p') = filter (\<lambda>s. \<not> exit_position e s) (map fst (active_trades p))"
    unfolding k by (rule filter_cong) auto
  show ?thesis
    using assms(1) l c k'
    by (simp add: force_exit_all_trades_def exit_symbols_append)
qed

text \<open>
  Idempotence of the forced exit. A call of \<^verbatim>\<open>force_exit_all_trades\<close> with the flag
  already set returns the state as it is: no call to the broker, same registry, same risk
  state. A call with the flag clear asks the broker exactly once for the exit of every
  registered trade, in registry order, then calls the broker's blanket exit and sets the flag;
  the trades whose exit the broker accepted have left the registry, the others are still
  registered. After that pass every further call is the identity, whatever the broker would
  answer, and \<^verbatim>\<open>should_force_exit\<close> is false.
\<close>

theorem force_exit_idempotent:
  "(force_exit_triggered p \<longrightarrow> force_exit_all_trades e p = p)
   \<and> (\<not> force_exit_triggered p \<and> distinct (map fst (active_trades p)) \<longrightarrow>
        (let p' = force_exit_all_trades e p
         in force_exit_triggered p'
          \<and> exit_symbols (calls p') = exit_symbols (calls p) @ map fst (active_trades p)
          \<and> last (calls p') = Force_exit_all_positions
          \<and> map fst (active_trades p')
              = filter (\<lambda>s. \<not> exit_position e s) (map fst (active_trades p))
          \<and> force_exit_all_trades e2 p' = p'
          \<and> \<not> should_force_exit p' now))"
proof (intro conjI impI)
  assume "force_exit_triggered p"
  then show "force_exit_all_trades e p = p" by (simp add: force_exit_all_trades_def)
next
  assume a: "\<not> force_exit_triggered p \<and> distinct (map fst (active_trades p))"
  then have r: "force_exit_triggered (force_exit_all_trades e p)
     \<and> exit_symbols (calls (force_exit_all_trades e p))
          = exit_symbols (calls p) @ map fst (active_trades p)
     \<and> last (calls (force_exit_all_trades e p)) = Force_exit_all_positions
     \<and> map fst (active_trades (force_exit_all_trades e p))
          = filter (\<lambda>s. \<not> exit_position e s) (map fst (active_trades p))"
    by (intro force_exit_all_trades_result) simp_all
  then show "let p' = force_exit_all_trades e p
         in force_exit_triggered p'
          \<and> exit_symbols (calls p') = exit_symbols (calls p) @ map fst (active_trades p)
          \<and> last (calls p') = Force_exit_all_positions
          \<and> map fst (active_trades p')
              = filter (\<lambda>s. \<not> exit_position e s) (map fst (active_trades p))
          \<and> force_exit_all_trades e2 p' = p'
          \<and> \<not> should_force_exit p' now"
    by (simp add: Let_def force_exit_all_trades_def [of e2] should_force_exit_def)
qed

text \<open>
  Two open trades and a broker that accepts only the exit of the first: both exits are
  requested once, the second trade stays registered, and a second pass changes nothing.
\<close>

theorem force_exit_idempotent_witness:
  "\<not> force_exit_triggered poller_two_trades
   \<and> distinct (map fst (active_trades poller_two_trades))
   \<and> force_exit_triggered
        (force_exit_all_trades (env_only ''RELIANCE'' quarter_past_three 2500) poller_two_trades)
   \<and> exit_symbols (calls
        (force_exit_all_trades (env_only ''RELIANCE'' quarter_past_three 2500) poller_two_trades))
       = [''RELIANCE'', ''TCS'']
   \<and> map fst (active_trades
        (force_exit_all_trades (env_only ''RELIANCE'' quarter_past_three 2500) poller_two_trades))
       = [''TCS'']
   \<and> force_exit_all_trades (env_at quarter_past_three 2500 True)
        (force_exit_all_trades (env_only ''RELIANCE'' quarter_past_three 2500) poller_two_trades)
       = force_exit_all_trades (env_only ''RELIANCE'' quarter_past_three 2500) poller_two_trades"
proof -
  have a: "\<not> force_exit_triggered poller_two_trades"
    "map fst (active_trades poller_two_trades) = [''RELIANCE'', ''TCS'']"
    "calls poller_two_trades = []"
    by (simp_all add: poller_two_trades_def poller_one_trade_def StockPoller_init_def)
  have e: "exit_position (env_only ''RELIANCE'' quarter_past_three 2500) = (\<lambda>s. s = ''RELIANCE'')"
    by (simp add: env_only_def)
  show ?thesis
    using force_exit_idempotent [of poller_two_trades "env_only ''RELIANCE'' quarter_past_three 2500"
        "env_at quarter_past_three 2500 True" quarter_past_three]
    by (simp add: Let_def a e)
qed

lemma force_exit_refused_state:
  "force_exit_all_trades (env_at quarter_past_three 2500 False) poller_one_trade
     = poller_one_trade\<lparr> calls := [Exit_position ''RELIANCE'', Force_exit_all_positions],
                         force_exit_triggered := True \<rparr>"
  by (simp add: force_exit_all_trades_def one_trade_fields exit_active_trade_refused
      env_at_fields)

text \<open>
  Claim C7 on the code. One trade is open and the broker refuses its exit, as the repository's
  mock broker does for a symbol it holds no position in. The forced-exit pass requests the
  exit once, calls the broker's blanket exit and sets the flag; the trade is still in the
  registry and no outcome has reached the risk manager, so the trade has not been
  force-closed. Since the flag is set, \<^verbatim>\<open>should_force_exit\<close> is false from then on and a
  further call of \<^verbatim>\<open>force_exit_all_trades\<close> changes nothing, also with a broker that
  would now accept: the trade is not force-closed that day.
\<close>

theorem force_exit_leaves_refused_trade:
  "\<not> force_exit_triggered poller_one_trade
   \<and> map fst (active_trades poller_one_trade) = [''RELIANCE'']
   \<and> \<not> exit_position (env_at quarter_past_three 2500 False) ''RELIANCE''
   \<and> force_exit_triggered
        (force_exit_all_trades (env_at quarter_past_three 2500 False) poller_one_trade)
   \<and> calls (force_exit_all_trades (env_at quarter_past_three 2500 False) poller_one_trade)
       = [Exit_position ''RELIANCE'', Force_exit_all_positions]
   \<and> map fst (active_trades
        (force_exit_all_trades (env_at quarter_past_three 2500 False) poller_one_trade))
       = [''RELIANCE'']
   \<and> daily_trades (risk_manager
        (force_exit_all_trades (env_at quarter_past_three 2500 False) poller_one_trade)) = []
   \<and> \<not> should_force_exit
         (force_exit_all_trades (env_at quarter_past_three 2500 False) poller_one_trade)
         quarter_past_three
   \<and> force_exit_all_trades (env_at quarter_past_three 2500 True)
        (force_exit_all_trades (env_at quarter_past_three 2500 False) poller_one_trade)
       = force_exit_all_trades (env_at quarter_past_three 2500 False) poller_one_trade"
proof -
  have d: "daily_trades (risk_manager poller_one_trade) = []"
    by (simp add: poller_one_trade_def StockPoller_init_def fresh_manager_def
        RiskManager_init_def)
  show ?thesis
    by (simp add: force_exit_refused_state one_trade_fields env_at_fields d
        should_force_exit_def force_exit_all_trades_def [of "env_at quarter_past_three 2500 True"])
qed

section \<open>The cap on concurrent trades\<close>

lemma check_fresh:
  "check_trading_allowed ten_am fresh_manager [] =
     (\<lparr> total_capital = 100000, available_capital = 100000, used_capital = 0,
        daily_pnl_snapshot = 0, daily_loss_count_snapshot = 0,
        max_drawdown_today_snapshot = 0, active_trades_snapshot = 0,
        is_trading_allowed = True, risk_status = ''NORMAL'' \<rparr>, fresh_manager)"
  by (simp add: check_trading_allowed_def Let_def fresh_manager_def RiskManager_init_def
      default_config_def reset_daily_metrics_def date_def ten_am_def get_current_capital_def
      is_near_market_close_def total_seconds_def micros_def)

lemma execute_trade_decision_keys:
  "map fst (active_trades (execute_trade_decision e symb d p)) =
     (if entry_price_ai (ai_decision_of d) \<noteq> 0
         \<and> place_bracket_order e symb
              (py_int (position_size_ai (ai_decision_of d) * INITIAL_CAPITAL (conf p)
                         / entry_price_ai (ai_decision_of d)))
         \<and> symb \<notin> set (map fst (active_trades p))
      then map fst (active_trades p) @ [symb]
      else map fst (active_trades p))"
  by (simp add: execute_trade_decision_def Let_def update_keys)

lemma execute_trade_decision_keeps:
  "risk_manager (execute_trade_decision e symb d p) = risk_manager p"
  "conf (execute_trade_decision e symb d p) = conf p"
  by (simp_all add: execute_trade_decision_def Let_def)

lemma analyze_and_decide_keys:
  "map fst (active_trades (analyze_and_decide e symb ms p)) =
     (if should_trade (make_trading_decision e symb)
      then map fst (active_trades (execute_trade_decision e symb (make_trading_decision e symb) p))
      else map fst (active_trades p))"
  by (simp add: analyze_and_decide_def Let_def)

lemma analyze_and_decide_keeps:
  "risk_manager (analyze_and_decide e symb ms p) = risk_manager p"
  "conf (analyze_and_decide e symb ms p) = conf p"
  by (simp_all add: analyze_and_decide_def Let_def execute_trade_decision_keeps)

lemma analyze_and_decide_approved:
  "map fst (active_trades (analyze_and_decide (env_at t price ok) symb ms p)) =
     (if symb \<notin> set (map fst (active_trades p)) then map fst (active_trades p) @ [symb]
      else map fst (active_trades p))"
  by (simp add: analyze_and_decide_keys execute_trade_decision_keys env_at_def buy_decision_def)

lemma three_stocks_fields:
  "monitored_stocks poller_three_stocks =
     [(''ITC'', watched ''ITC'' False), (''SBIN'', watched ''SBIN'' False),
      (''WIPRO'', watched ''WIPRO'' False)]"
  "active_trades poller_three_stocks = []"
  "risk_manager poller_three_stocks = fresh_manager"
  "last_screening_time poller_three_stocks = Some half_past_nine"
  "daily_screening_done poller_three_stocks"
  "last_active_poll poller_three_stocks = None"
  "last_inactive_poll poller_three_stocks = None"
  "\<not> force_exit_triggered poller_three_stocks"
  "market_open_hour poller_three_stocks = 9" "market_open_minute poller_three_stocks = 15"
  "force_exit_hour poller_three_stocks = 15" "force_exit_minute poller_three_stocks = 10"
  by (simp_all add: poller_three_stocks_def StockPoller_init_def default_config_def)

lemma poll_three:
  "map fst (active_trades (poll_inactive_stocks (env_at ten_am 500 True) poller_three_stocks))
     = [''ITC'', ''SBIN'', ''WIPRO'']"
  "risk_manager (poll_inactive_stocks (env_at ten_am 500 True) poller_three_stocks) = fresh_manager"
proof -
  have e: "clock (env_at ten_am 500 True) = ten_am" "positions (env_at ten_am 500 True) = []"
    by (simp_all add: env_at_def)
  have w: "\<not> is_active_trade (watched s False)" for s by (simp add: watched_def)
  show "map fst (active_trades (poll_inactive_stocks (env_at ten_am 500 True) poller_three_stocks))
     = [''ITC'', ''SBIN'', ''WIPRO'']"
    by (simp add: poll_inactive_stocks_def three_stocks_fields e check_fresh w
        analyze_and_decide_approved)
  show "risk_manager (poll_inactive_stocks (env_at ten_am 500 True) poller_three_stocks) = fresh_manager"
    by (simp add: poll_inactive_stocks_def three_stocks_fields e check_fresh w
        analyze_and_decide_keeps)
qed

lemma tick_three:
  "tick (env_at ten_am 500 True) poller_three_stocks
     = poll_inactive_stocks (env_at ten_am 500 True) poller_three_stocks"
proof -
  have e: "clock (env_at ten_am 500 True) = ten_am" by (simp add: env_at_def)
  have d: "\<not> date ten_am > date half_past_nine"
    by (simp add: date_def ten_am_def half_past_nine_def)
  have m: "is_market_hours poller_three_stocks ten_am"
    by (simp add: is_market_hours_def three_stocks_fields micros_def ten_am_def)
  have f: "\<not> should_force_exit poller_three_stocks ten_am"
    by (simp add: should_force_exit_def three_stocks_fields micros_def ten_am_def)
  have a: "poll_active_trades (env_at ten_am 500 True) poller_three_stocks = poller_three_stocks"
    by (simp add: poll_active_trades_def three_stocks_fields)
  show ?thesis
    by (simp add: tick_def Let_def e d m f a three_stocks_fields)
qed

text \<open>
  Claim C5 on the code. The cap is two trades, the registry and the broker hold none, three
  stocks are monitored, and the decision engine approves all three while the broker accepts
  every order: the account check passes once before the loop, and one polling pass (one
  iteration of the loop at ten o'clock) leaves three active trades.
\<close>

theorem trade_cap_exceeded:
  "max_active_trades (risk_manager poller_three_stocks) = 2
   \<and> active_trades poller_three_stocks = []
   \<and> positions (env_at ten_am 500 True) = []
   \<and> map fst (active_trades (poll_inactive_stocks (env_at ten_am 500 True) poller_three_stocks))
       = [''ITC'', ''SBIN'', ''WIPRO'']
   \<and> int (length (active_trades (tick (env_at ten_am 500 True) poller_three_stocks))) = 3
   \<and> max_active_trades (risk_manager (tick (env_at ten_am 500 True) poller_three_stocks)) = 2"
proof -
  have "length (map fst (active_trades (poll_inactive_stocks (env_at ten_am 500 True)
           poller_three_stocks))) = 3"
    by (simp only: poll_three) simp
  then have l: "length (active_trades (poll_inactive_stocks (env_at ten_am 500 True)
           poller_three_stocks)) = 3"
    by simp
  have m: "max_active_trades fresh_manager = 2"
    by (simp add: fresh_manager_def RiskManager_init_def default_config_def)
  have e: "positions (env_at ten_am 500 True) = []" by (simp add: env_at_def)
  show ?thesis
    by (simp add: tick_three poll_three l m three_stocks_fields e)
qed

section \<open>Refused exits\<close>

lemma poll_active_trades_single:
  "active_trades p = [(symb, t)] \<Longrightarrow>
   poll_active_trades e p = (monitor_active_trade e symb t p)\<lparr> last_active_poll := Some (clock e) \<rparr>"
  by (simp add: poll_active_trades_def)

lemma monitor_exit_symbols:
  assumes "get_current_price e symb = Some price" "price \<noteq> 0"
  shows "exit_symbols (calls (monitor_active_trade e symb t p)) =
     exit_symbols (calls p)
       @ (if (transaction_type t = ''BUY'' \<and> price \<le> stop_loss t
              \<or> transaction_type t = ''SELL'' \<and> price \<ge> stop_loss t)
             \<or> (transaction_type t = ''BUY'' \<and> price \<ge> target_price t
                 \<or> transaction_type t = ''SELL'' \<and> price \<le> target_price t)
             \<or> total_seconds (clock e) (entry_time t) > 14400
             \<or> should_force_exit p (clock e)
          then [symb] else [])"
  using monitor_active_trade_cases [OF assms, of t p]
  by (simp add: Let_def exit_active_trade_exit_symbols)

lemma monitor_refused_stop:
  assumes "get_current_price e symb = Some price" "price \<noteq> 0"
    and "transaction_type t = ''BUY'' \<and> price \<le> stop_loss t
         \<or> transaction_type t = ''SELL'' \<and> price \<ge> stop_loss t"
    and "\<not> exit_position e symb"
  shows "monitor_active_trade e symb t p =
     p\<lparr> active_trades :=
          AList.map_entry symb
            (\<lambda>_. t\<lparr> current_price := price, last_check_time := Some (clock e),
                     unrealized_pnl :=
                       (if transaction_type t = ''BUY''
                        then (price - entry_price t) * of_int (quantity t)
                        else (entry_price t - price) * of_int (quantity t)) \<rparr>)
            (active_trades p),
        calls := calls p @ [Exit_position symb] \<rparr>"
  using monitor_active_trade_cases [OF assms(1,2), of t p] assms(3,4)
  by (simp add: Let_def exit_active_trade_refused)

lemma poll_single_refused:
  assumes "active_trades p = [(symb, t)]"
    and "get_current_price e symb = Some price" "price \<noteq> 0"
    and "transaction_type t = ''BUY'' \<and> price \<le> stop_loss t
         \<or> transaction_type t = ''SELL'' \<and> price \<ge> stop_loss t"
    and "\<not> exit_position e symb"
  shows "poll_active_trades e p =
     p\<lparr> active_trades :=
          [(symb, t\<lparr> current_price := price, last_check_time := Some (clock e),
                     unrealized_pnl :=
                       (if transaction_type t = ''BUY''
                        then (price - entry_price t) * of_int (quantity t)
                        else (entry_price t - price) * of_int (quantity t)) \<rparr>)],
        calls := calls p @ [Exit_position symb],
        last_active_poll := Some (clock e) \<rparr>"
  using assms
  by (simp add: poll_active_trades_single monitor_refused_stop [OF assms(2-5)])

lemma repeated_refused:
  assumes "active_trades p = [(symb, t)]"
    and "get_current_price e symb = Some price" "price \<noteq> 0"
    and "transaction_type t = ''BUY'' \<and> price \<le> stop_loss t
         \<or> transaction_type t = ''SELL'' \<and> price \<ge> stop_loss t"
    and "\<not> exit_position e symb"
  shows "\<exists>t'. active_trades ((poll_active_trades e ^^ n) p) = [(symb, t')]
           \<and> transaction_type t' = transaction_type t \<and> stop_loss t' = stop_loss t
           \<and> calls ((poll_active_trades e ^^ n) p) = calls p @ replicate n (Exit_position symb)
           \<and> risk_manager ((poll_active_trades e ^^ n) p) = risk_manager p"
proof (induction n)
  case 0
  then show ?case using assms(1) by simp
next
  case (Suc n)
  then obtain t' where
    a: "active_trades ((poll_active_trades e ^^ n) p) = [(symb, t')]"
    and s: "transaction_type t' = transaction_type t" "stop_loss t' = stop_loss t"
    and c: "calls ((poll_active_trades e ^^ n) p) = calls p @ replicate n (Exit_position symb)"
    and r: "risk_manager ((poll_active_trades e ^^ n) p) = risk_manager p"
    by blast
  have h: "transaction_type t' = ''BUY'' \<and> price \<le> stop_loss t'
         \<or> transaction_type t' = ''SELL'' \<and> price \<ge> stop_loss t'"
    using assms(4) s by simp
  show ?case
    using s c r
    by (simp add: poll_single_refused [OF a assms(2,3) h assms(5)] replicate_append_same)
qed

text \<open>
  Claim C9, amended. When the broker refuses the exit, the only effect is the call itself: the
  trade stays registered and the risk manager records nothing. On a later tick the step does
  nothing if no price is obtained, and otherwise requests the exit again exactly when one of
  the four exit conditions holds at that tick's price and time. Nothing counts the attempts:
  with a stop loss that stays breached and a broker that keeps refusing, \<open>n\<close> polling
  passes make \<open>n\<close> exit requests and no other call, for every \<open>n\<close>.
\<close>

theorem refused_exit_keeps_trade:
  "(\<not> exit_position e symb \<longrightarrow>
      exit_active_trade e symb t reason p = p\<lparr> calls := calls p @ [Exit_position symb] \<rparr>)
   \<and> (get_current_price e symb = None \<or> get_current_price e symb = Some 0 \<longrightarrow>
        monitor_active_trade e symb t p = p)
   \<and> (get_current_price e symb = Some price \<and> price \<noteq> 0 \<longrightarrow>
        exit_symbols (calls (monitor_active_trade e symb t p)) =
          exit_symbols (calls p)
            @ (if (transaction_type t = ''BUY'' \<and> price \<le> stop_loss t
                   \<or> transaction_type t = ''SELL'' \<and> price \<ge> stop_loss t)
                  \<or> (transaction_type t = ''BUY'' \<and> price \<ge> target_price t
                      \<or> transaction_type t = ''SELL'' \<and> price \<le> target_price t)
                  \<or> total_seconds (clock e) (entry_time t) > 14400
                  \<or> should_force_exit p (clock e)
               then [symb] else []))
   \<and> (active_trades p = [(symb, t)] \<and> get_current_price e symb = Some price \<and> price \<noteq> 0
        \<and> (transaction_type t = ''BUY'' \<and> price \<le> stop_loss t
            \<or> transaction_type t = ''SELL'' \<and> price \<ge> stop_loss t)
        \<and> \<not> exit_position e symb \<longrightarrow>
        map fst (active_trades ((poll_active_trades e ^^ n) p)) = [symb]
        \<and> calls ((poll_active_trades e ^^ n) p) = calls p @ replicate n (Exit_position symb)
        \<and> risk_manager ((poll_active_trades e ^^ n) p) = risk_manager p)"
proof (intro conjI impI)
  assume "\<not> exit_position e symb"
  then show "exit_active_trade e symb t reason p = p\<lparr> calls := calls p @ [Exit_position symb] \<rparr>"
    by (rule exit_active_trade_refused)
next
  assume "get_current_price e symb = None \<or> get_current_price e symb = Some 0"
  then show "monitor_active_trade e symb t p = p" by (rule monitor_no_price)
next
  assume "get_current_price e symb = Some price \<and> price \<noteq> 0"
  then show "exit_symbols (calls (monitor_active_trade e symb t p)) =
          exit_symbols (calls p)
            @ (if (transaction_type t = ''BUY'' \<and> price \<le> stop_loss t
                   \<or> transaction_type t = ''SELL'' \<and> price \<ge> stop_loss t)
                  \<or> (transaction_type t = ''BUY'' \<and> price \<ge> target_price t
                      \<or> transaction_type t = ''SELL'' \<and> price \<le> target_price t)
                  \<or> total_seconds (clock e) (entry_time t) > 14400
                  \<or> should_force_exit p (clock e)
               then [symb] else [])"
    by (intro monitor_exit_symbols) simp_all
next
  assume a: "active_trades p = [(symb, t)] \<and> get_current_price e symb = Some price \<and> price \<noteq> 0
        \<and> (transaction_type t = ''BUY'' \<and> price \<le> stop_loss t
            \<or> transaction_type t = ''SELL'' \<and> price \<ge> stop_loss t)
        \<and> \<not> exit_position e symb"
  then have "\<exists>t'. active_trades ((poll_active_trades e ^^ n) p) = [(symb, t')]
           \<and> transaction_type t' = transaction_type t \<and> stop_loss t' = stop_loss t
           \<and> calls ((poll_active_trades e ^^ n) p) = calls p @ replicate n (Exit_position symb)
           \<and> risk_manager ((poll_active_trades e ^^ n) p) = risk_manager p"
    using repeated_refused [of p symb t e price n] by blast
  then obtain t' where
    r: "active_trades ((poll_active_trades e ^^ n) p) = [(symb, t')]"
       "calls ((poll_active_trades e ^^ n) p) = calls p @ replicate n (Exit_position symb)"
       "risk_manager ((poll_active_trades e ^^ n) p) = risk_manager p"
    by blast
  show "map fst (active_trades ((poll_active_trades e ^^ n) p)) = [symb]" using r by simp
  show "calls ((poll_active_trades e ^^ n) p) = calls p @ replicate n (Exit_position symb)"
    using r by simp
  show "risk_manager ((poll_active_trades e ^^ n) p) = risk_manager p" using r by simp
qed

lemma monitor_quiet:
  assumes "get_current_price e symb = Some price" "price \<noteq> 0"
    and "\<not> (transaction_type t = ''BUY'' \<and> price \<le> stop_loss t
            \<or> transaction_type t = ''SELL'' \<and> price \<ge> stop_loss t)"
    and "\<not> (transaction_type t = ''BUY'' \<and> price \<ge> target_price t
            \<or> transaction_type t = ''SELL'' \<and> price \<le> target_price t)"
    and "\<not> total_seconds (clock e) (entry_time t) > 14400"
    and "\<not> should_force_exit p (clock e)"
  shows "calls (monitor_active_trade e symb t p) = calls p"
  using monitor_active_trade_cases [OF assms(1,2), of t p] assms(3-6)
  by (simp add: Let_def)

text \<open>
  Claim C9, as stated. The broker refuses the stop-loss exit at 2450. One minute later the
  price is back at 2500: the pass requests no exit and raises no alert, although the exit has
  not succeeded. With the price left at 2450, twelve passes make twelve requests and nothing
  else.
\<close>

theorem exit_retry_counterexample:
  "\<not> exit_position (env_at ten_am 2450 False) ''RELIANCE''
   \<and> calls (poll_active_trades (env_at ten_am 2450 False) poller_one_trade)
       = [Exit_position ''RELIANCE'']
   \<and> map fst (active_trades (poll_active_trades (env_at ten_am 2450 False) poller_one_trade))
       = [''RELIANCE'']
   \<and> daily_trades (risk_manager (poll_active_trades (env_at ten_am 2450 False) poller_one_trade))
       = []
   \<and> calls (poll_active_trades (env_at one_past_ten 2500 True)
              (poll_active_trades (env_at ten_am 2450 False) poller_one_trade))
       = [Exit_position ''RELIANCE'']
   \<and> calls (((poll_active_trades (env_at ten_am 2450 False)) ^^ 12) poller_one_trade)
       = replicate 12 (Exit_position ''RELIANCE'')"
proof -
  define e1 where "e1 = env_at ten_am 2450 False"
  define e2 where "e2 = env_at one_past_ten 2500 True"
  define t1 where "t1 = reliance_trade\<lparr> current_price := 2450, last_check_time := Some ten_am,
                     unrealized_pnl := (2450 - 2500) * of_int (quantity reliance_trade) \<rparr>"
  define p1 where "p1 = poller_one_trade
     \<lparr> active_trades := [(''RELIANCE'', t1)],
        calls := [Exit_position ''RELIANCE''],
        last_active_poll := Some ten_am \<rparr>"
  have h: "get_current_price e1 ''RELIANCE'' = Some 2450" "(2450::rat) \<noteq> 0"
     "transaction_type reliance_trade = ''BUY'' \<and> 2450 \<le> stop_loss reliance_trade
         \<or> transaction_type reliance_trade = ''SELL'' \<and> 2450 \<ge> stop_loss reliance_trade"
     "\<not> exit_position e1 ''RELIANCE''"
    by (simp_all add: e1_def env_at_fields reliance_fields)
  have s1: "poll_active_trades e1 poller_one_trade = p1"
    using poll_single_refused [OF one_trade_fields(1) h]
    by (simp add: p1_def t1_def e1_def env_at_fields reliance_fields one_trade_fields)
  have rm: "risk_manager p1 = fresh_manager"
    by (simp add: p1_def poller_one_trade_def StockPoller_init_def)
  have q: "calls (monitor_active_trade e2 ''RELIANCE'' t1 p1) = calls p1"
  proof (rule monitor_quiet [where price = 2500])
    show "get_current_price e2 ''RELIANCE'' = Some 2500" by (simp add: e2_def env_at_fields)
    show "(2500::rat) \<noteq> 0" by simp
    show "\<not> (transaction_type t1 = ''BUY'' \<and> 2500 \<le> stop_loss t1
            \<or> transaction_type t1 = ''SELL'' \<and> 2500 \<ge> stop_loss t1)"
      by (simp add: t1_def reliance_fields)
    show "\<not> (transaction_type t1 = ''BUY'' \<and> 2500 \<ge> target_price t1
            \<or> transaction_type t1 = ''SELL'' \<and> 2500 \<le> target_price t1)"
      by (simp add: t1_def reliance_fields)
    show "\<not> total_seconds (clock e2) (entry_time t1) > 14400"
      by (simp add: t1_def reliance_fields e2_def env_at_fields total_seconds_def micros_def
          one_past_ten_def half_past_nine_def)
    show "\<not> should_force_exit p1 (clock e2)"
      by (simp add: should_force_exit_def p1_def one_trade_fields e2_def env_at_fields
          micros_def one_past_ten_def)
  qed
  have a1: "active_trades p1 = [(''RELIANCE'', t1)]" by (simp add: p1_def)
  have s2: "calls (poll_active_trades e2 p1) = [Exit_position ''RELIANCE'']"
    by (simp add: poll_active_trades_single [OF a1] q) (simp add: p1_def)
  from repeated_refused [OF one_trade_fields(1) h, of 12]
  have s3: "calls ((poll_active_trades e1 ^^ 12) poller_one_trade)
              = replicate 12 (Exit_position ''RELIANCE'')"
    by (auto simp add: one_trade_fields)
  show ?thesis
    unfolding e1_def[symmetric] e2_def[symmetric] s1
    using h(4) s2 s3 a1 rm
    by (simp add: p1_def fresh_manager_def RiskManager_init_def)
qed

text \<open>Three refused stop-loss exits in a row, and a quiet tick at 2500.\<close>

theorem refused_exit_keeps_trade_witness:
  "\<not> exit_position (env_at ten_am 2450 False) ''RELIANCE''
   \<and> active_trades poller_one_trade = [(''RELIANCE'', reliance_trade)]
   \<and> get_current_price (env_at ten_am 2450 False) ''RELIANCE'' = Some 2450 \<and> (2450::rat) \<noteq> 0
   \<and> transaction_type reliance_trade = ''BUY'' \<and> 2450 \<le> stop_loss reliance_trade
   \<and> map fst (active_trades (((poll_active_trades (env_at ten_am 2450 False)) ^^ 3)
        poller_one_trade)) = [''RELIANCE'']
   \<and> calls (((poll_active_trades (env_at ten_am 2450 False)) ^^ 3) poller_one_trade)
       = [Exit_position ''RELIANCE'', Exit_position ''RELIANCE'', Exit_position ''RELIANCE'']
   \<and> risk_manager (((poll_active_trades (env_at ten_am 2450 False)) ^^ 3) poller_one_trade)
       = fresh_manager
   \<and> exit_symbols (calls (monitor_active_trade (env_at one_past_ten 2500 True) ''RELIANCE''
        reliance_trade poller_one_trade)) = []"
proof -
  have t: "\<not> total_seconds one_past_ten half_past_nine > 14400"
    by (simp add: total_seconds_def micros_def one_past_ten_def half_past_nine_def)
  have f: "\<not> should_force_exit poller_one_trade one_past_ten"
    by (simp add: should_force_exit_def one_trade_fields micros_def one_past_ten_def)
  have rm: "risk_manager poller_one_trade = fresh_manager"
    by (simp add: poller_one_trade_def StockPoller_init_def)
  have r3: "replicate 3 x = [x, x, x]" for x :: call
    by (simp add: numeral_3_eq_3)
  show ?thesis
    using refused_exit_keeps_trade [of "env_at ten_am 2450 False" "''RELIANCE''" reliance_trade
        "''STOP_LOSS''" poller_one_trade 2450 3]
      refused_exit_keeps_trade [of "env_at one_past_ten 2500 True" "''RELIANCE''" reliance_trade
        "''STOP_LOSS''" poller_one_trade 2500 0]
    by (simp add: env_at_fields reliance_fields one_trade_fields t f rm r3)
qed

end
